theory Spec2Isabelle
  imports Main
begin

section \<open>Python values\<close>

text \<open>
  The recipe service answers in JSON, and the cache documents are JSON as well. A decoded
  JSON value is a Python value of one of the shapes below. Floating-point numbers are left
  out. A dictionary is the list of its items in insertion order. A \<open>string\<close> is read as
  a sequence of code points below 256; Python strings with larger code points are outside
  the model.
\<close>

datatype pyval =
    PNone
  | PBool bool
  | PInt int
  | PStr string
  | PList "pyval list"
  | PDict "(string \<times> pyval) list"

datatype exn =
    AttributeError
  | TypeError
  | KeyError
  | ValueError
  | OSError
  | RequestException
  | UnidentifiedImageError
  | OverflowError
  | MemoryError

text \<open>Truth value of an object, as \<open>if x\<close>, \<open>not x\<close> and \<open>x and y\<close> test it.\<close>

fun py_truthy :: "pyval \<Rightarrow> bool" where
  "py_truthy PNone = False"
| "py_truthy (PBool b) = b"
| "py_truthy (PInt n) = (n \<noteq> 0)"
| "py_truthy (PStr s) = (s \<noteq> [])"
| "py_truthy (PList xs) = (xs \<noteq> [])"
| "py_truthy (PDict kvs) = (kvs \<noteq> [])"

subsection \<open>Conversion to text\<close>

definition digit_char :: "nat \<Rightarrow> char" where
  "digit_char d = char_of (48 + d)"

fun show_nat :: "nat \<Rightarrow> string" where
  "show_nat n = (if n < 10 then [digit_char n] else show_nat (n div 10) @ [digit_char (n mod 10)])"

declare show_nat.simps [simp del]

definition show_int :: "int \<Rightarrow> string" where
  "show_int i = (if i < 0 then CHR ''-'' # show_nat (nat (- i)) else show_nat (nat i))"

definition hex_char :: "nat \<Rightarrow> char" where
  "hex_char d = (if d < 10 then char_of (48 + d) else char_of (87 + d))"

text \<open>
  \<open>repr\<close> of a string: single quotes unless the text has a single quote and no
  double quote; the quote and the backslash are escaped, tab, newline and carriage return get
  their letters, every other unprintable code point is written \<open>\xhh\<close>.
\<close>

definition py_printable :: "char \<Rightarrow> bool" where
  "py_printable c = (let n = (of_char c :: nat) in
     (32 \<le> n \<and> n < 127) \<or> (161 \<le> n \<and> n \<noteq> 173))"

definition repr_char :: "char \<Rightarrow> char \<Rightarrow> string" where
  "repr_char q c =
     (if c = q \<or> c = CHR 0x5C then [CHR 0x5C, c]
      else if c = CHR 0x09 then [CHR 0x5C, CHR ''t'']
      else if c = CHR 0x0A then [CHR 0x5C, CHR ''n'']
      else if c = CHR 0x0D then [CHR 0x5C, CHR ''r'']
      else if py_printable c then [c]
      else [CHR 0x5C, CHR ''x'', hex_char (of_char c div 16), hex_char (of_char c mod 16)])"

definition repr_str :: "string \<Rightarrow> string" where
  "repr_str s =
     (let q = (if CHR 0x27 \<in> set s \<and> CHR 0x22 \<notin> set s then CHR 0x22 else CHR 0x27)
      in q # concat (map (repr_char q) s) @ [q])"

fun join_comma :: "string list \<Rightarrow> string" where
  "join_comma [] = []"
| "join_comma [x] = x"
| "join_comma (x # y # ys) = x @ '', '' @ join_comma (y # ys)"

fun py_repr :: "pyval \<Rightarrow> string" where
  "py_repr PNone = ''None''"
| "py_repr (PBool b) = (if b then ''True'' else ''False'')"
| "py_repr (PInt n) = show_int n"
| "py_repr (PStr s) = repr_str s"
| "py_repr (PList xs) = ''['' @ join_comma (map py_repr xs) @ '']''"
| "py_repr (PDict kvs) =
     ''{'' @ join_comma (map (\<lambda>kv. repr_str (fst kv) @ '': '' @ py_repr (snd kv)) kvs) @ ''}''"

text \<open>What an f-string puts in place of \<open>{v}\<close>: \<open>str(v)\<close>.\<close>

definition py_str :: "pyval \<Rightarrow> string" where
  "py_str v = (case v of PStr s \<Rightarrow> s | _ \<Rightarrow> py_repr v)"

subsection \<open>\<open>str.strip()\<close>\<close>

text \<open>The code points below 256 for which \<open>str.isspace\<close> holds.\<close>

definition py_isspace :: "char \<Rightarrow> bool" where
  "py_isspace c = ((of_char c :: nat) \<in> {9, 10, 11, 12, 13, 28, 29, 30, 31, 32, 133, 160})"

definition py_lstrip :: "string \<Rightarrow> string" where
  "py_lstrip s = dropWhile py_isspace s"

definition py_rstrip :: "string \<Rightarrow> string" where
  "py_rstrip s = rev (dropWhile py_isspace (rev s))"

definition py_strip :: "string \<Rightarrow> string" where
  "py_strip s = py_rstrip (py_lstrip s)"

subsection \<open>Dictionaries and subscripts\<close>

text \<open>\<open>d.get(k)\<close> and \<open>d.get(k, default)\<close> on a dictionary.\<close>

definition dict_get_default :: "(string \<times> pyval) list \<Rightarrow> string \<Rightarrow> pyval \<Rightarrow> pyval" where
  "dict_get_default d k dflt = (case map_of d k of None \<Rightarrow> dflt | Some v \<Rightarrow> v)"

definition dict_get :: "(string \<times> pyval) list \<Rightarrow> string \<Rightarrow> pyval" where
  "dict_get d k = dict_get_default d k PNone"

text \<open>
  \<open>v[k]\<close> with a string key: a dictionary raises KeyError when the key is missing,
  every other value raises TypeError.
\<close>

definition py_getitem :: "pyval \<Rightarrow> string \<Rightarrow> exn + pyval" where
  "py_getitem v k =
     (case v of
        PDict d \<Rightarrow> (case map_of d k of None \<Rightarrow> Inl KeyError | Some x \<Rightarrow> Inr x)
      | _ \<Rightarrow> Inl TypeError)"

section \<open>Recipe\<close>

record recipe =
  meal_id :: pyval
  name :: pyval
  category :: pyval
  area :: pyval
  instructions :: pyval
  thumbnail :: pyval
  ingredients :: pyval

section \<open>MealAPI: ingredient extraction\<close>

text \<open>
  One round of the loop \<open>for i in range(1, 21)\<close> of \<open>get_recipe_details\<close> and
  \<open>get_random_recipe\<close> (the two functions hold the same loop):
  \<^verbatim>\<open>
    ingredient = meal.get(f'strIngredient{i}')
    measure = meal.get(f'strMeasure{i}')
    if ingredient and ingredient.strip():
        ingredients.append(f"{measure} {ingredient}".strip())
  \<close>
  Only a string has \<open>strip\<close>: a true value of another type raises AttributeError,
  which no handler of the two functions catches.
\<close>

definition slot_ingredient :: "(string \<times> pyval) list \<Rightarrow> nat \<Rightarrow> pyval" where
  "slot_ingredient meal i = dict_get meal (''strIngredient'' @ show_nat i)"

definition slot_measure :: "(string \<times> pyval) list \<Rightarrow> nat \<Rightarrow> pyval" where
  "slot_measure meal i = dict_get meal (''strMeasure'' @ show_nat i)"

definition slot_step :: "(string \<times> pyval) list \<Rightarrow> nat \<Rightarrow> string list \<Rightarrow> exn + string list" where
  "slot_step meal i acc =
     (let ingredient = slot_ingredient meal i;
          measure = slot_measure meal i
      in if \<not> py_truthy ingredient then Inr acc
         else (case ingredient of
                 PStr s \<Rightarrow>
                   if py_strip s \<noteq> []
                   then Inr (acc @ [py_strip (py_str measure @ '' '' @ s)])
                   else Inr acc
               | _ \<Rightarrow> Inl AttributeError))"

fun slot_loop :: "(string \<times> pyval) list \<Rightarrow> nat list \<Rightarrow> string list \<Rightarrow> exn + string list" where
  "slot_loop meal [] acc = Inr acc"
| "slot_loop meal (i # is) acc =
     (case slot_step meal i acc of Inl e \<Rightarrow> Inl e | Inr acc' \<Rightarrow> slot_loop meal is acc')"

definition extract_ingredients :: "(string \<times> pyval) list \<Rightarrow> exn + string list" where
  "extract_ingredients meal = slot_loop meal [1..<21] []"

text \<open>
  The lines after the \<open>if data.get('meals') and len(data['meals']) > 0\<close> test:
  \<open>meal = data['meals'][0]\<close>. A true value that is a number has no \<open>len\<close>, a
  dictionary has no key \<open>0\<close>, a string gives its first character.
\<close>

definition first_meal :: "pyval \<Rightarrow> exn + pyval option" where
  "first_meal data =
     (case data of
        PDict d \<Rightarrow>
          (let meals = dict_get d ''meals''
           in if \<not> py_truthy meals then Inr None
              else (case meals of
                      PList xs \<Rightarrow> (case xs of [] \<Rightarrow> Inr None | x # _ \<Rightarrow> Inr (Some x))
                    | PStr s \<Rightarrow> (case s of [] \<Rightarrow> Inr None | c # _ \<Rightarrow> Inr (Some (PStr [c])))
                    | PDict _ \<Rightarrow> Inl KeyError
                    | _ \<Rightarrow> Inl TypeError))
      | _ \<Rightarrow> Inl AttributeError)"

text \<open>
  The construction of the Recipe from the first meal; \<open>meal[k]\<close> raises KeyError on a
  missing key, \<open>meal.get(k, 'Unknown')\<close> does not.
\<close>

definition recipe_of_meal :: "pyval \<Rightarrow> exn + recipe" where
  "recipe_of_meal meal =
     (case meal of
        PDict md \<Rightarrow>
          (case extract_ingredients md of
             Inl e \<Rightarrow> Inl e
           | Inr ings \<Rightarrow>
          (case py_getitem meal ''idMeal'' of Inl e \<Rightarrow> Inl e | Inr a \<Rightarrow>
          (case py_getitem meal ''strMeal'' of Inl e \<Rightarrow> Inl e | Inr b \<Rightarrow>
          (case py_getitem meal ''strInstructions'' of Inl e \<Rightarrow> Inl e | Inr c \<Rightarrow>
          (case py_getitem meal ''strMealThumb'' of Inl e \<Rightarrow> Inl e | Inr d \<Rightarrow>
             Inr \<lparr> meal_id = a, name = b,
                   category = dict_get_default md ''strCategory'' (PStr ''Unknown''),
                   area = dict_get_default md ''strArea'' (PStr ''Unknown''),
                   instructions = c, thumbnail = d,
                   ingredients = PList (map PStr ings) \<rparr>)))))
      | _ \<Rightarrow> Inl AttributeError)"

section \<open>The world outside the program\<close>

text \<open>
  Pillow, json and requests are libraries, not code of the application. Their byte formats
  are not modelled: a byte string is classified by what the two decoders make of it. Text that
  \<open>json.load\<close> accepts is \<open>Json_Text v\<close>, with \<open>v\<close> the value it yields, and
  \<open>json.dump\<close> of \<open>v\<close> writes such text. Bytes that \<open>Image.open\<close> accepts are
  \<open>Image_Bytes f k im\<close>: \<open>f\<close> is their encoding, \<open>im\<close> the image they open as,
  and \<open>k\<close> stands for everything else in them (the encoder's settings, the metadata), so
  that different values are different byte strings and equal values are equal ones.

  \<open>Image.open\<close> reads the header only: \<open>img_intact\<close> says whether the pixel data
  can be loaded later (it cannot from a file that is cut short), and \<open>img_pixels\<close> stands
  for that data. What the JPEG encoder and the resampling filter compute from it is floating
  point arithmetic inside Pillow; the world holds both as functions, together with the memory
  there is for a new image.
\<close>

datatype img_format = JPEG | PNG | GIF | WEBP

datatype img_mode = Mode_L | Mode_RGB | Mode_CMYK | Mode_RGBA | Mode_LA | Mode_P

record pil_image =
  img_mode :: img_mode
  img_size :: "int \<times> int"
  img_pixels :: nat
  img_intact :: bool

datatype bytes =
    Json_Text pyval
  | Image_Bytes img_format nat pil_image
  | Other_Bytes string

text \<open>What is at a path: a file, or something that cannot be opened for reading.\<close>

datatype node = File bytes | Unreadable

text \<open>
  What writing a file at a path does: it works; or \<open>open\<close> raises and nothing changes;
  or \<open>open\<close> has truncated the file and the write raises later (a full disk).
\<close>

datatype write_outcome = Write_Ok | Open_Fails | Dump_Fails

datatype http_response = Conn_Error | Reply nat bytes

text \<open>
  \<open>jpeg_encode w im\<close> is what Pillow's JPEG encoder makes of an image: the \<open>k\<close> of
  the bytes it writes and the pixel data these bytes decode to. \<open>resample w im sz\<close> is the
  pixel data of the image resized to \<open>sz\<close>.
\<close>

record world =
  nodes :: "string \<rightharpoonup> node"
  on_write :: "string \<Rightarrow> write_outcome"
  remote :: "string \<Rightarrow> http_response"
  net_log :: "string list"
  jpeg_encode :: "pil_image \<Rightarrow> nat \<times> nat"
  resample :: "pil_image \<Rightarrow> int \<times> int \<Rightarrow> nat"
  can_allocate :: "int \<times> int \<Rightarrow> bool"

definition os_path_exists :: "world \<Rightarrow> string \<Rightarrow> bool" where
  "os_path_exists w p = (nodes w p \<noteq> None)"

text \<open>\<open>os.path.join(a, b)\<close> of posixpath.\<close>

definition os_path_join :: "string \<Rightarrow> string \<Rightarrow> string" where
  "os_path_join a b =
     (if b \<noteq> [] \<and> hd b = CHR ''/'' then b
      else if a = [] \<or> last a = CHR ''/'' then a @ b
      else a @ ''/'' @ b)"

subsection \<open>requests\<close>

text \<open>\<open>requests.get(url, timeout=...)\<close>: the request is logged and the remote answers.\<close>

definition requests_get :: "string \<Rightarrow> world \<Rightarrow> (exn + nat \<times> bytes) \<times> world" where
  "requests_get url w =
     (let w' = w\<lparr>net_log := net_log w @ [url]\<rparr>
      in case remote w url of
           Conn_Error \<Rightarrow> (Inl RequestException, w')
         | Reply status body \<Rightarrow> (Inr (status, body), w'))"

text \<open>
  \<open>response.raise_for_status()\<close> followed by \<open>response.json()\<close>. HTTPError is a
  RequestException, and so is the JSONDecodeError that requests raises (since its version
  2.27).
\<close>

definition response_json :: "nat \<times> bytes \<Rightarrow> exn + pyval" where
  "response_json resp =
     (case resp of (status, body) \<Rightarrow>
        if 400 \<le> status \<and> status < 600 then Inl RequestException
        else (case body of Json_Text data \<Rightarrow> Inr data | _ \<Rightarrow> Inl RequestException))"

subsection \<open>Pillow\<close>

text \<open>\<open>Image.open\<close>: the header is read, the pixel data is not.\<close>

definition image_open :: "bytes \<Rightarrow> exn + pil_image" where
  "image_open b = (case b of Image_Bytes f k im \<Rightarrow> Inr im | _ \<Rightarrow> Inl UnidentifiedImageError)"

definition image_open_file :: "string \<Rightarrow> world \<Rightarrow> exn + pil_image" where
  "image_open_file p w =
     (case nodes w p of Some (File b) \<Rightarrow> image_open b | _ \<Rightarrow> Inl OSError)"

text \<open>The modes the JPEG writer takes as they are.\<close>

fun jpeg_mode :: "img_mode \<Rightarrow> bool" where
  "jpeg_mode Mode_L = True"
| "jpeg_mode Mode_RGB = True"
| "jpeg_mode Mode_CMYK = True"
| "jpeg_mode _ = False"

text \<open>
  \<open>img.save(path, "JPEG")\<close>: the pixel data is loaded and encoded anew, whatever the
  encoding of the bytes the image came from. When the loading, the encoder or the file system
  raises, Pillow removes the file it has created, so a failed save of a new file changes
  nothing.
\<close>

definition jpeg_bytes :: "world \<Rightarrow> pil_image \<Rightarrow> bytes" where
  "jpeg_bytes w im =
     Image_Bytes JPEG (fst (jpeg_encode w im)) (im\<lparr>img_pixels := snd (jpeg_encode w im)\<rparr>)"

definition image_save_jpeg :: "string \<Rightarrow> pil_image \<Rightarrow> world \<Rightarrow> (exn + unit) \<times> world" where
  "image_save_jpeg p im w =
     (if img_intact im \<and> jpeg_mode (img_mode im) \<and> on_write w p = Write_Ok
      then (Inr (), w\<lparr>nodes := (nodes w)(p \<mapsto> File (jpeg_bytes w im))\<rparr>)
      else (Inl OSError, w))"

text \<open>
  \<open>img.resize((width, height), LANCZOS)\<close>. The pixel data is loaded; the result is a copy
  when the size is the same already; a side that does not fit a C int overflows, a side
  below 1 is refused, and the new image needs memory.
\<close>

definition image_resize :: "world \<Rightarrow> pil_image \<Rightarrow> int \<times> int \<Rightarrow> exn + pil_image" where
  "image_resize w im sz =
     (if \<not> img_intact im then Inl OSError
      else if img_size im = sz then (if can_allocate w sz then Inr im else Inl MemoryError)
      else if fst sz < - 2147483648 \<or> 2147483648 \<le> fst sz
            \<or> snd sz < - 2147483648 \<or> 2147483648 \<le> snd sz then Inl OverflowError
      else if fst sz < 1 \<or> snd sz < 1 then Inl ValueError
      else if \<not> can_allocate w sz then Inl MemoryError
      else Inr (im\<lparr>img_size := sz, img_pixels := resample w im sz\<rparr>))"

section \<open>MealAPI\<close>

definition BASE_URL :: string where
  "BASE_URL = ''https://www.themealdb.com/api/json/v1/1''"

definition lookup_url :: "pyval \<Rightarrow> string" where
  "lookup_url mid = BASE_URL @ ''/lookup.php?i='' @ py_str mid"

definition filter_url :: "pyval \<Rightarrow> string" where
  "filter_url ingredient = BASE_URL @ ''/filter.php?i='' @ py_str ingredient"

text \<open>The handler \<open>except requests.exceptions.RequestException: return None\<close>.\<close>

definition except_request :: "(exn + 'a option) \<times> world \<Rightarrow> (exn + 'a option) \<times> world" where
  "except_request res =
     (case res of
        (Inl e, w) \<Rightarrow> if e = RequestException then (Inr None, w) else (Inl e, w)
      | (Inr r, w) \<Rightarrow> (Inr r, w))"

definition search_by_ingredient :: "pyval \<Rightarrow> world \<Rightarrow> (exn + pyval option) \<times> world" where
  "search_by_ingredient ingredient w =
     except_request
       (case requests_get (filter_url ingredient) w of
          (Inl e, w') \<Rightarrow> (Inl e, w')
        | (Inr resp, w') \<Rightarrow>
            (case response_json resp of
               Inl e \<Rightarrow> (Inl e, w')
             | Inr data \<Rightarrow>
                 (case data of
                    PDict d \<Rightarrow>
                      if py_truthy (dict_get d ''meals'')
                      then (Inr (Some (dict_get d ''meals'')), w')
                      else (Inr (Some (PList [])), w')
                  | _ \<Rightarrow> (Inl AttributeError, w'))))"

text \<open>
  \<open>get_recipe_details\<close> and \<open>get_random_recipe\<close> differ in the URL only; their
  common body, from the decoded answer on, is \<open>recipe_of_data\<close>, and with the request
  \<open>fetch_recipe\<close>.
\<close>

definition recipe_of_data :: "pyval \<Rightarrow> exn + recipe option" where
  "recipe_of_data data =
     (case first_meal data of
        Inl e \<Rightarrow> Inl e
      | Inr None \<Rightarrow> Inr None
      | Inr (Some meal) \<Rightarrow>
          (case recipe_of_meal meal of Inl e \<Rightarrow> Inl e | Inr r \<Rightarrow> Inr (Some r)))"

definition fetch_recipe :: "string \<Rightarrow> world \<Rightarrow> (exn + recipe option) \<times> world" where
  "fetch_recipe url w =
     except_request
       (case requests_get url w of
          (Inl e, w') \<Rightarrow> (Inl e, w')
        | (Inr resp, w') \<Rightarrow>
            (case response_json resp of
               Inl e \<Rightarrow> (Inl e, w')
             | Inr data \<Rightarrow> (recipe_of_data data, w')))"

definition get_recipe_details :: "pyval \<Rightarrow> world \<Rightarrow> (exn + recipe option) \<times> world" where
  "get_recipe_details mid w = fetch_recipe (lookup_url mid) w"

definition get_random_recipe :: "world \<Rightarrow> (exn + recipe option) \<times> world" where
  "get_random_recipe w = fetch_recipe (BASE_URL @ ''/random.php'') w"

section \<open>ChefApp: the caches\<close>

definition images_dir :: string where
  "images_dir = ''images''"

definition recipe_cache_file :: "pyval \<Rightarrow> string" where
  "recipe_cache_file mid = os_path_join images_dir (py_str mid @ ''_recipe.json'')"

definition image_cache_file :: "pyval \<Rightarrow> string" where
  "image_cache_file mid = os_path_join images_dir (py_str mid @ ''.jpg'')"

text \<open>\<open>with open(cache_file, 'r') as f: data = json.load(f)\<close>\<close>

definition read_json :: "string \<Rightarrow> world \<Rightarrow> exn + pyval" where
  "read_json p w =
     (case nodes w p of
        None \<Rightarrow> Inl OSError
      | Some Unreadable \<Rightarrow> Inl OSError
      | Some (File b) \<Rightarrow> (case b of Json_Text data \<Rightarrow> Inr data | _ \<Rightarrow> Inl ValueError))"

text \<open>\<open>Recipe(meal_id=data['meal_id'], ..., ingredients=data['ingredients'])\<close>\<close>

definition recipe_of_doc :: "pyval \<Rightarrow> exn + recipe" where
  "recipe_of_doc data =
     (case py_getitem data ''meal_id'' of Inl e \<Rightarrow> Inl e | Inr a \<Rightarrow>
     (case py_getitem data ''name'' of Inl e \<Rightarrow> Inl e | Inr b \<Rightarrow>
     (case py_getitem data ''category'' of Inl e \<Rightarrow> Inl e | Inr c \<Rightarrow>
     (case py_getitem data ''area'' of Inl e \<Rightarrow> Inl e | Inr d \<Rightarrow>
     (case py_getitem data ''instructions'' of Inl e \<Rightarrow> Inl e | Inr f \<Rightarrow>
     (case py_getitem data ''thumbnail'' of Inl e \<Rightarrow> Inl e | Inr g \<Rightarrow>
     (case py_getitem data ''ingredients'' of Inl e \<Rightarrow> Inl e | Inr h \<Rightarrow>
        Inr \<lparr> meal_id = a, name = b, category = c, area = d,
              instructions = f, thumbnail = g, ingredients = h \<rparr>)))))))"

text \<open>The bare \<open>except: return None\<close> catches whatever the block raises.\<close>

definition load_recipe_cache :: "pyval \<Rightarrow> world \<Rightarrow> (exn + recipe option) \<times> world" where
  "load_recipe_cache mid w =
     (let cache_file = recipe_cache_file mid
      in if os_path_exists w cache_file
         then (case (case read_json cache_file w of
                       Inl e \<Rightarrow> Inl e
                     | Inr data \<Rightarrow> recipe_of_doc data) of
                 Inl e \<Rightarrow> (Inr None, w)
               | Inr r \<Rightarrow> (Inr (Some r), w))
         else (Inr None, w))"

definition recipe_doc :: "recipe \<Rightarrow> pyval" where
  "recipe_doc r =
     PDict [(''meal_id'', meal_id r), (''name'', name r), (''category'', category r),
            (''area'', area r), (''instructions'', instructions r),
            (''thumbnail'', thumbnail r), (''ingredients'', ingredients r)]"

text \<open>\<open>with open(cache_file, 'w') as f: json.dump(data, f)\<close>\<close>

definition write_json :: "string \<Rightarrow> pyval \<Rightarrow> world \<Rightarrow> (exn + unit) \<times> world" where
  "write_json p data w =
     (case on_write w p of
        Write_Ok \<Rightarrow> (Inr (), w\<lparr>nodes := (nodes w)(p \<mapsto> File (Json_Text data))\<rparr>)
      | Open_Fails \<Rightarrow> (Inl OSError, w)
      | Dump_Fails \<Rightarrow> (Inl OSError, w\<lparr>nodes := (nodes w)(p \<mapsto> File (Other_Bytes []))\<rparr>))"

text \<open>The bare \<open>except: pass\<close> drops whatever the block raises.\<close>

definition save_recipe_cache :: "recipe \<Rightarrow> world \<Rightarrow> (exn + unit) \<times> world" where
  "save_recipe_cache r w =
     (let cache_file = recipe_cache_file (meal_id r)
      in case write_json cache_file (recipe_doc r) w of
           (Inl e, w') \<Rightarrow> (Inr (), w')
         | (Inr u, w') \<Rightarrow> (Inr (), w'))"

text \<open>
  The \<open>try\<close> block of \<open>load_image_cached\<close>. A URL that is not a string makes
  \<open>requests.get\<close> raise before anything is sent. The wrapping of the result in
  \<open>ImageTk.PhotoImage\<close> is left out: the result is the resized image.
\<close>

definition load_image_block ::
  "pyval \<Rightarrow> string \<Rightarrow> int \<Rightarrow> int \<Rightarrow> world \<Rightarrow> (exn + pil_image) \<times> world" where
  "load_image_block url cache_filename width height w =
     (case (if os_path_exists w cache_filename
            then (image_open_file cache_filename w, w)
            else (case url of
                    PStr u \<Rightarrow>
                      (case requests_get u w of
                         (Inl e, w1) \<Rightarrow> (Inl e, w1)
                       | (Inr resp, w1) \<Rightarrow>
                           (case image_open (snd resp) of
                              Inl e \<Rightarrow> (Inl e, w1)
                            | Inr img_data \<Rightarrow>
                                (case image_save_jpeg cache_filename img_data w1 of
                                   (Inl e, w2) \<Rightarrow> (Inl e, w2)
                                 | (Inr u, w2) \<Rightarrow> (Inr img_data, w2))))
                  | _ \<Rightarrow> (Inl RequestException, w))) of
        (Inl e, w') \<Rightarrow> (Inl e, w')
      | (Inr img_data, w') \<Rightarrow>
          (case image_resize w' img_data (width, height) of
             Inl e \<Rightarrow> (Inl e, w')
           | Inr img \<Rightarrow> (Inr img, w')))"

text \<open>\<open>except Exception: return None\<close>\<close>

definition load_image_cached ::
  "pyval \<Rightarrow> pyval \<Rightarrow> int \<Rightarrow> int \<Rightarrow> world \<Rightarrow> (exn + pil_image option) \<times> world" where
  "load_image_cached url mid width height w =
     (let cache_filename = image_cache_file mid
      in case load_image_block url cache_filename width height w of
           (Inl e, w') \<Rightarrow> (Inr None, w')
         | (Inr img, w') \<Rightarrow> (Inr (Some img), w'))"

section \<open>ChefApp: the read-through workflow\<close>

text \<open>
  The body of the loops of \<open>search_recipes\<close> and \<open>view_all_recipes\<close>, for the
  identifier \<open>meal['idMeal']\<close>:
  \<^verbatim>\<open>
    recipe = self.load_recipe_cache(meal['idMeal'])
    if not recipe:
        recipe = self.api.get_recipe_details(meal['idMeal'])
        if recipe:
            self.save_recipe_cache(recipe)
  \<close>
  A Recipe object is always true; \<open>None\<close> is the only false result.
\<close>

definition read_through :: "pyval \<Rightarrow> world \<Rightarrow> (exn + recipe option) \<times> world" where
  "read_through mid w =
     (case load_recipe_cache mid w of
        (Inl e, w1) \<Rightarrow> (Inl e, w1)
      | (Inr (Some r), w1) \<Rightarrow> (Inr (Some r), w1)
      | (Inr None, w1) \<Rightarrow>
          (case get_recipe_details mid w1 of
             (Inl e, w2) \<Rightarrow> (Inl e, w2)
           | (Inr None, w2) \<Rightarrow> (Inr None, w2)
           | (Inr (Some r), w2) \<Rightarrow>
               (case save_recipe_cache r w2 of
                  (Inl e, w3) \<Rightarrow> (Inl e, w3)
                | (Inr u, w3) \<Rightarrow> (Inr (Some r), w3))))"

text \<open>
  \<open>for meal in results[:n]: ...; if recipe: self.all_recipes.append(recipe)\<close>. An
  exception leaves the list as far as it was built.
\<close>

fun load_all :: "pyval list \<Rightarrow> recipe list \<Rightarrow> world \<Rightarrow> (exn + unit) \<times> recipe list \<times> world" where
  "load_all [] all_recipes w = (Inr (), all_recipes, w)"
| "load_all (meal # rest) all_recipes w =
     (case py_getitem meal ''idMeal'' of
        Inl e \<Rightarrow> (Inl e, all_recipes, w)
      | Inr mid \<Rightarrow>
          (case read_through mid w of
             (Inl e, w') \<Rightarrow> (Inl e, all_recipes, w')
           | (Inr None, w') \<Rightarrow> load_all rest all_recipes w'
           | (Inr (Some r), w') \<Rightarrow> load_all rest (all_recipes @ [r]) w'))"

text \<open>
  \<open>results[:n]\<close> and the iteration over it: a list gives its first elements, a string
  its first characters, anything else raises (for a dictionary TypeError up to Python 3.11,
  KeyError from 3.12; the model has the former).
\<close>

definition py_slice_items :: "pyval \<Rightarrow> nat \<Rightarrow> exn + pyval list" where
  "py_slice_items v n =
     (case v of
        PList xs \<Rightarrow> Inr (take n xs)
      | PStr s \<Rightarrow> Inr (map (\<lambda>c. PStr [c]) (take n s))
      | _ \<Rightarrow> Inl TypeError)"

text \<open>\<open>len(v)\<close>: None, booleans and numbers have no length.\<close>

definition py_len :: "pyval \<Rightarrow> exn + nat" where
  "py_len v =
     (case v of
        PStr s \<Rightarrow> Inr (length s)
      | PList xs \<Rightarrow> Inr (length xs)
      | PDict kvs \<Rightarrow> Inr (length kvs)
      | _ \<Rightarrow> Inl TypeError)"

text \<open>
  \<open>search_recipes\<close> without its message boxes and labels, up to \<open>apply_filters\<close>:
  the result is the new value of \<open>self.all_recipes\<close>, which is reset just before the
  loop.
\<close>

definition search_recipes ::
  "pyval \<Rightarrow> recipe list \<Rightarrow> world \<Rightarrow> (exn + unit) \<times> recipe list \<times> world" where
  "search_recipes ingredient all_recipes w =
     (case search_by_ingredient ingredient w of
        (Inl e, w') \<Rightarrow> (Inl e, all_recipes, w')
      | (Inr None, w') \<Rightarrow> (Inr (), all_recipes, w')
      | (Inr (Some results), w') \<Rightarrow>
          (case py_len results of
             Inl e \<Rightarrow> (Inl e, all_recipes, w')
           | Inr n \<Rightarrow>
               if n = 0 then (Inr (), all_recipes, w')
               else (case py_slice_items results 10 of
                       Inl e \<Rightarrow> (Inl e, [], w')
                     | Inr meals \<Rightarrow> load_all meals [] w')))"

text \<open>\<open>view_all_recipes\<close>: three recipes for each of three ingredients.\<close>

fun view_all_loop :: "pyval list \<Rightarrow> recipe list \<Rightarrow> world \<Rightarrow> (exn + unit) \<times> recipe list \<times> world" where
  "view_all_loop [] all_recipes w = (Inr (), all_recipes, w)"
| "view_all_loop (ingredient # rest) all_recipes w =
     (case search_by_ingredient ingredient w of
        (Inl e, w') \<Rightarrow> (Inl e, all_recipes, w')
      | (Inr None, w') \<Rightarrow> view_all_loop rest all_recipes w'
      | (Inr (Some results), w') \<Rightarrow>
          if py_truthy results
          then (case py_slice_items results 3 of
                  Inl e \<Rightarrow> (Inl e, all_recipes, w')
                | Inr meals \<Rightarrow>
                    (case load_all meals all_recipes w' of
                       (Inl e, rs, w'') \<Rightarrow> (Inl e, rs, w'')
                     | (Inr u, rs, w'') \<Rightarrow> view_all_loop rest rs w''))
          else view_all_loop rest all_recipes w')"

definition view_all_recipes :: "world \<Rightarrow> (exn + unit) \<times> recipe list \<times> world" where
  "view_all_recipes w =
     view_all_loop [PStr ''chicken'', PStr ''beef'', PStr ''salmon''] [] w"

section \<open>Notions of the specification\<close>

subsection \<open>Ingredient slots\<close>

text \<open>
  The specification's retained slot: the ingredient field is a string with something other
  than white space in it. Its entry is the measure, a space and the ingredient, stripped. A
  slot whose ingredient is a true value that is not a string stops the extraction.
\<close>

definition slot_retained :: "(string \<times> pyval) list \<Rightarrow> nat \<Rightarrow> bool" where
  "slot_retained meal i =
     (case slot_ingredient meal i of PStr s \<Rightarrow> py_strip s \<noteq> [] | _ \<Rightarrow> False)"

definition slot_entry :: "(string \<times> pyval) list \<Rightarrow> nat \<Rightarrow> string" where
  "slot_entry meal i =
     py_strip (py_str (slot_measure meal i) @ '' '' @ py_str (slot_ingredient meal i))"

definition slot_raises :: "(string \<times> pyval) list \<Rightarrow> nat \<Rightarrow> bool" where
  "slot_raises meal i =
     (case slot_ingredient meal i of PStr s \<Rightarrow> False | v \<Rightarrow> py_truthy v)"

definition retained_entries_spec :: "(string \<times> pyval) list \<Rightarrow> string list" where
  "retained_entries_spec meal = map (slot_entry meal) (filter (slot_retained meal) [1..<21])"

text \<open>The payload of the specification's example, with the fields a recipe needs.\<close>

definition example_meal :: "(string \<times> pyval) list" where
  "example_meal =
     [(''idMeal'', PStr ''52772''), (''strMeal'', PStr ''Seasoning''),
      (''strInstructions'', PStr ''Mix.''), (''strMealThumb'', PStr ''http://img/52772.jpg''),
      (''strIngredient1'', PStr ''Salt''), (''strMeasure1'', PStr ''1 tsp''),
      (''strIngredient2'', PStr ''''),
      (''strIngredient3'', PStr ''Pepper''), (''strMeasure3'', PStr ''2 pinch''),
      (''strIngredient4'', PStr ''''), (''strMeasure4'', PStr '' ''),
      (''strIngredient5'', PNone), (''strMeasure5'', PNone)]"


subsection \<open>Well-formed cache documents\<close>

definition record_keys :: "string list" where
  "record_keys = [''meal_id'', ''name'', ''category'', ''area'', ''instructions'',
                  ''thumbnail'', ''ingredients'']"

text \<open>
  What is at a path parses as a record: a readable file holding a JSON object with the seven
  keys of a recipe document.
\<close>

definition parses_as_record :: "node option \<Rightarrow> bool" where
  "parses_as_record n =
     (case n of
        Some (File (Json_Text (PDict d))) \<Rightarrow> list_all (\<lambda>k. map_of d k \<noteq> None) record_keys
      | _ \<Rightarrow> False)"

subsection \<open>Locations inside the cache directory\<close>

text \<open>
  The components of a path under the POSIX rules, as \<open>os.path.normpath\<close> leaves those
  of a relative path: empty components and \<open>.\<close> are dropped, and \<open>..\<close> takes the
  component before it away (and stays when there is none). Links are not followed.
\<close>

fun split_slash :: "string \<Rightarrow> string list" where
  "split_slash [] = [[]]"
| "split_slash (c # cs) =
     (if c = CHR ''/'' then [] # split_slash cs
      else (case split_slash cs of [] \<Rightarrow> [[c]] | x # xs \<Rightarrow> (c # x) # xs))"

fun resolve_parts :: "string list \<Rightarrow> string list \<Rightarrow> string list" where
  "resolve_parts st [] = rev st"
| "resolve_parts st (c # cs) =
     (if c = [] \<or> c = ''.'' then resolve_parts st cs
      else if c = ''..'' then
        (case st of
           [] \<Rightarrow> resolve_parts [c] cs
         | t # ts \<Rightarrow> if t = ''..'' then resolve_parts (c # st) cs else resolve_parts ts cs)
      else resolve_parts (c # st) cs)"

definition path_components :: "string \<Rightarrow> string list" where
  "path_components p = resolve_parts [] (split_slash p)"

definition is_absolute :: "string \<Rightarrow> bool" where
  "is_absolute p = (p \<noteq> [] \<and> hd p = CHR ''/'')"

text \<open>
  A relative path that names a place inside the directory \<open>images\<close> of the working
  directory.
\<close>

definition in_cache_dir :: "string \<Rightarrow> bool" where
  "in_cache_dir p =
     (\<not> is_absolute p \<and>
      (case path_components p of d # nm # rest \<Rightarrow> d = ''images'' | _ \<Rightarrow> False))"

text \<open>
  Two paths that name different places whatever the working directory is: both are absolute
  or both are relative, they climb the same number of levels, and their components differ.
\<close>

definition climbs :: "string \<Rightarrow> nat" where
  "climbs p = length (takeWhile (\<lambda>c. c = ''..'') (path_components p))"

definition other_place :: "string \<Rightarrow> string \<Rightarrow> bool" where
  "other_place p q =
     (is_absolute p = is_absolute q \<and> climbs p = climbs q
      \<and> path_components p \<noteq> path_components q)"

subsection \<open>Sizes an image can be resized to\<close>

text \<open>Each side is at least 1 and fits a C int, and there is memory for the result.\<close>

definition resizable :: "world \<Rightarrow> int \<times> int \<Rightarrow> bool" where
  "resizable w sz =
     (1 \<le> fst sz \<and> fst sz < 2147483648 \<and> 1 \<le> snd sz \<and> snd sz < 2147483648
      \<and> can_allocate w sz)"

subsection \<open>Example worlds\<close>

definition example_recipe :: recipe where
  "example_recipe =
     \<lparr> meal_id = PStr ''52772'', name = PStr ''Seasoning'',
       category = PStr ''Unknown'', area = PStr ''Unknown'',
       instructions = PStr ''Mix.'', thumbnail = PStr ''http://img/52772.jpg'',
       ingredients = PList [PStr ''1 tsp Salt'', PStr ''2 pinch Pepper''] \<rparr>"

definition other_recipe :: recipe where
  "other_recipe =
     \<lparr> meal_id = PStr ''52772'', name = PStr ''Seasoning, new'',
       category = PNone, area = PStr ''French'',
       instructions = PStr ''Stir.'', thumbnail = PNone,
       ingredients = PList [] \<rparr>"

text \<open>
  An encoder that changes the pixel data, a filter, and memory for a hundred million
  pixels.
\<close>

definition example_encode :: "pil_image \<Rightarrow> nat \<times> nat" where
  "example_encode im = (0, img_pixels im + 1)"

definition example_resample :: "pil_image \<Rightarrow> int \<times> int \<Rightarrow> nat" where
  "example_resample im sz = img_pixels im + 2"

definition example_memory :: "int \<times> int \<Rightarrow> bool" where
  "example_memory sz = (fst sz * snd sz \<le> 100000000)"

definition example_picture :: pil_image where
  "example_picture =
     \<lparr> img_mode = Mode_RGB, img_size = (700, 700), img_pixels = 10, img_intact = True \<rparr>"

text \<open>
  A remote that knows the example meal and sends its picture as PNG, the same picture as
  JPEG under a second address, and a JPEG that is cut short under a third; and a remote
  that is down.
\<close>

definition remote_up :: "string \<Rightarrow> http_response" where
  "remote_up u =
     (if u = lookup_url (PStr ''52772'')
      then Reply 200 (Json_Text (PDict [(''meals'', PList [PDict example_meal])]))
      else if u = ''http://img/52772.jpg''
      then Reply 200 (Image_Bytes PNG 7 example_picture)
      else if u = ''http://img/52772b.jpg''
      then Reply 200 (Image_Bytes JPEG 7 example_picture)
      else if u = ''http://img/cut.jpg''
      then Reply 200 (Image_Bytes JPEG 7 (example_picture\<lparr> img_intact := False \<rparr>))
      else Reply 404 (Other_Bytes ''not found''))"

definition remote_down :: "string \<Rightarrow> http_response" where
  "remote_down u = Conn_Error"

text \<open>An empty cache on a working disk; the same on a disk that refuses every write.\<close>

definition fresh_world :: world where
  "fresh_world =
     \<lparr> nodes = Map.empty, on_write = (\<lambda>p. Write_Ok), remote = remote_up, net_log = [],
       jpeg_encode = example_encode, resample = example_resample,
       can_allocate = example_memory \<rparr>"

definition readonly_world :: world where
  "readonly_world =
     \<lparr> nodes = Map.empty, on_write = (\<lambda>p. Open_Fails), remote = remote_up, net_log = [],
       jpeg_encode = example_encode, resample = example_resample,
       can_allocate = example_memory \<rparr>"

text \<open>A cache whose document for the example meal is cut short, on a full disk.\<close>

definition corrupt_world :: world where
  "corrupt_world =
     \<lparr> nodes = [''images/52772_recipe.json'' \<mapsto> File (Other_Bytes ''{'')],
       on_write = (\<lambda>p. Dump_Fails), remote = remote_down, net_log = [],
       jpeg_encode = example_encode, resample = example_resample,
       can_allocate = example_memory \<rparr>"

text \<open>A cache that holds the example recipe and its picture; the remote is down.\<close>

definition cached_world :: world where
  "cached_world =
     \<lparr> nodes = [''images/52772_recipe.json'' \<mapsto> File (Json_Text (recipe_doc example_recipe)),
                ''images/52772.jpg'' \<mapsto>
                   File (Image_Bytes JPEG 0 (example_picture\<lparr> img_pixels := 11 \<rparr>))],
       on_write = (\<lambda>p. Write_Ok), remote = remote_down, net_log = [],
       jpeg_encode = example_encode, resample = example_resample,
       can_allocate = example_memory \<rparr>"


text \<open>An empty cache on a working disk while the remote is down.\<close>

definition offline_world :: world where
  "offline_world =
     \<lparr> nodes = Map.empty, on_write = (\<lambda>p. Write_Ok), remote = remote_down, net_log = [],
       jpeg_encode = example_encode, resample = example_resample,
       can_allocate = example_memory \<rparr>"

text \<open>A record whose identifier names a place outside the cache directory.\<close>

definition traversal_recipe :: recipe where
  "traversal_recipe = example_recipe\<lparr> meal_id := PStr ''../52772'' \<rparr>"

text \<open>
  An empty cache on a working disk, with a remote that answers the lookup of the identifier
  \<open>1\<close> with the example meal, whose own identifier is \<open>52772\<close>.
\<close>

definition mismatch_world :: world where
  "mismatch_world =
     \<lparr> nodes = Map.empty, on_write = (\<lambda>p. Write_Ok),
       remote = (\<lambda>u. if u = lookup_url (PStr ''1'')
                      then Reply 200 (Json_Text (PDict [(''meals'', PList [PDict example_meal])]))
                      else Reply 404 (Other_Bytes ''not found'')),
       net_log = [],
       jpeg_encode = example_encode, resample = example_resample,
       can_allocate = example_memory \<rparr>"

subsection \<open>Stripping\<close>


section \<open>Properties of the ingredient extraction\<close>

lemma py_strip_Nil [simp]: "py_strip [] = []"
  by (simp add: py_strip_def py_lstrip_def py_rstrip_def)









lemma slot_step_cases:
  "slot_step meal i acc =
     (if slot_raises meal i then Inl AttributeError
      else if slot_retained meal i then Inr (acc @ [slot_entry meal i])
      else Inr acc)"
  by (cases "slot_ingredient meal i")
     (auto simp: slot_step_def slot_raises_def slot_retained_def slot_entry_def py_str_def Let_def)

lemma slot_loop_char:
  "slot_loop meal is acc =
     (if \<exists>i\<in>set is. slot_raises meal i then Inl AttributeError
      else Inr (acc @ map (slot_entry meal) (filter (slot_retained meal) is)))"
  by (induction "is" arbitrary: acc) (auto simp: slot_step_cases)

lemma empty_slot_not_retained:
  assumes "slot_ingredient meal i = PStr [] \<or> slot_ingredient meal i = PNone"
  shows "\<not> slot_retained meal i" and "\<not> slot_raises meal i"
  using assms by (auto simp: slot_retained_def slot_raises_def)

lemma retained_is_nonempty_string:
  assumes "slot_retained meal i"
  shows "\<exists>s. slot_ingredient meal i = PStr s \<and> s \<noteq> [] \<and> py_strip s \<noteq> []"
  using assms by (cases "slot_ingredient meal i") (auto simp: slot_retained_def)

lemma example_entries:
  "py_strip (''1 tsp'' @ '' '' @ ''Salt'') = ''1 tsp Salt''"
  "py_strip (''2 pinch'' @ '' '' @ ''Pepper'') = ''2 pinch Pepper''"
  "py_strip ''Salt'' \<noteq> []"
  "py_strip ''Pepper'' \<noteq> []"
  by code_simp+

lemma upt_1_21_split: "[1..<21] = [1, 2, 3] @ [4..<21]"
  by code_simp

lemma example_general:
  assumes s1: "slot_ingredient meal 1 = PStr ''Salt''" and m1: "slot_measure meal 1 = PStr ''1 tsp''"
    and s2: "slot_ingredient meal 2 = PStr ''''"
    and s3: "slot_ingredient meal 3 = PStr ''Pepper''" and m3: "slot_measure meal 3 = PStr ''2 pinch''"
    and rest: "\<forall>i\<in>set [4..<21]. slot_ingredient meal i = PStr '''' \<or> slot_ingredient meal i = PNone"
  shows "extract_ingredients meal = Inr [''1 tsp Salt'', ''2 pinch Pepper'']"
proof -
  have tail_ret: "filter (slot_retained meal) [4..<21] = []"
    using rest empty_slot_not_retained(1) [of meal] by (auto simp: filter_empty_conv)
  have tail_ok: "\<forall>i\<in>set [4..<21]. \<not> slot_raises meal i"
    using rest empty_slot_not_retained(2) [of meal] by blast
  have head_ok: "\<not> slot_raises meal 1" "\<not> slot_raises meal 2" "\<not> slot_raises meal 3"
    using s1 s2 s3 by (simp_all add: slot_raises_def)
  have no_raise: "\<not> (\<exists>i\<in>set [1..<21]. slot_raises meal i)"
    using tail_ok head_ok by (simp only: upt_1_21_split set_append) auto
  have r1: "slot_retained meal 1" using s1 example_entries(3) by (simp add: slot_retained_def)
  have r2: "\<not> slot_retained meal 2" using s2 by (simp add: slot_retained_def)
  have r3: "slot_retained meal 3" using s3 example_entries(4) by (simp add: slot_retained_def)
  have e1: "slot_entry meal 1 = ''1 tsp Salt''"
    using s1 m1 example_entries(1) by (simp add: slot_entry_def py_str_def)
  have e3: "slot_entry meal 3 = ''2 pinch Pepper''"
    using s3 m3 example_entries(2) by (simp add: slot_entry_def py_str_def)
  have "filter (slot_retained meal) [1..<21] = [1, 3]"
    using r1 r2 r3 tail_ret by (simp only: upt_1_21_split filter_append) simp
  then have "map (slot_entry meal) (filter (slot_retained meal) [1..<21])
      = [''1 tsp Salt'', ''2 pinch Pepper'']"
    using e1 e3 by simp
  then show ?thesis
    using no_raise by (simp only: extract_ingredients_def slot_loop_char) simp
qed

text \<open>
  Claim C3. For every upstream meal object, the extraction either stops with AttributeError
  (some ingredient field among the slots 1 to 20 is a true value that is not a string) or
  yields the entries of exactly the retained slots among 1 to 20, in ascending slot order. A
  slot is retained when its ingredient field is a string with something other than white
  space in it: a retained slot has a non-empty string as its ingredient field, and a field
  that is null, absent or the empty string is never retained. In particular, for Salt with 1 tsp in slot 1,
  an empty slot 2, Pepper with 2 pinch in slot 3 and all higher slots empty, the sequence is
  exactly 1 tsp Salt, 2 pinch Pepper.
\<close>

theorem ingredient_extraction:
  "extract_ingredients meal =
     (if \<exists>i\<in>set [1..<21]. slot_raises meal i then Inl AttributeError
      else Inr (retained_entries_spec meal))
   \<and> (\<forall>i. slot_retained meal i \<longrightarrow>
          (\<exists>s. slot_ingredient meal i = PStr s \<and> s \<noteq> []))
   \<and> (\<forall>i. slot_ingredient meal i = PStr [] \<or> slot_ingredient meal i = PNone
          \<longrightarrow> \<not> slot_retained meal i)
   \<and> (slot_ingredient meal 1 = PStr ''Salt'' \<and> slot_measure meal 1 = PStr ''1 tsp''
        \<and> slot_ingredient meal 2 = PStr ''''
        \<and> slot_ingredient meal 3 = PStr ''Pepper'' \<and> slot_measure meal 3 = PStr ''2 pinch''
        \<and> (\<forall>i\<in>set [4..<21]. slot_ingredient meal i = PStr '''' \<or> slot_ingredient meal i = PNone)
      \<longrightarrow> extract_ingredients meal = Inr [''1 tsp Salt'', ''2 pinch Pepper''])"
proof (intro conjI allI impI)
  show "extract_ingredients meal =
     (if \<exists>i\<in>set [1..<21]. slot_raises meal i then Inl AttributeError
      else Inr (retained_entries_spec meal))"
    by (simp only: extract_ingredients_def slot_loop_char retained_entries_spec_def append_Nil)
next
  fix i assume "slot_retained meal i"
  then show "\<exists>s. slot_ingredient meal i = PStr s \<and> s \<noteq> []"
    using retained_is_nonempty_string by blast
next
  fix i assume "slot_ingredient meal i = PStr [] \<or> slot_ingredient meal i = PNone"
  then show "\<not> slot_retained meal i" by (rule empty_slot_not_retained(1))
next
  assume "slot_ingredient meal 1 = PStr ''Salt'' \<and> slot_measure meal 1 = PStr ''1 tsp''
        \<and> slot_ingredient meal 2 = PStr ''''
        \<and> slot_ingredient meal 3 = PStr ''Pepper'' \<and> slot_measure meal 3 = PStr ''2 pinch''
        \<and> (\<forall>i\<in>set [4..<21]. slot_ingredient meal i = PStr '''' \<or> slot_ingredient meal i = PNone)"
  then show "extract_ingredients meal = Inr [''1 tsp Salt'', ''2 pinch Pepper'']"
    using example_general by blast
qed

theorem ingredient_extraction_witness:
  "slot_ingredient example_meal 1 = PStr ''Salt'' \<and> slot_measure example_meal 1 = PStr ''1 tsp''
   \<and> slot_ingredient example_meal 2 = PStr []
   \<and> slot_ingredient example_meal 3 = PStr ''Pepper''
   \<and> slot_measure example_meal 3 = PStr ''2 pinch''
   \<and> \<not> (\<exists>i\<in>set [4..<21]. slot_ingredient example_meal i \<noteq> PStr []
              \<and> slot_ingredient example_meal i \<noteq> PNone)
   \<and> slot_retained example_meal 3
   \<and> \<not> (\<exists>i\<in>set [1..<21]. slot_raises example_meal i)
   \<and> extract_ingredients example_meal = Inr [''1 tsp Salt'', ''2 pinch Pepper'']
   \<and> retained_entries_spec example_meal = [''1 tsp Salt'', ''2 pinch Pepper'']"
proof -
  have h1: "slot_ingredient example_meal 1 = PStr ''Salt''"
    and h2: "slot_measure example_meal 1 = PStr ''1 tsp''"
    and h3: "slot_ingredient example_meal 2 = PStr []"
    and h4: "slot_ingredient example_meal 3 = PStr ''Pepper''"
    and h5: "slot_measure example_meal 3 = PStr ''2 pinch''"
    by code_simp+
  have h6: "\<not> (\<exists>i\<in>set [4..<21]. slot_ingredient example_meal i \<noteq> PStr []
              \<and> slot_ingredient example_meal i \<noteq> PNone)"
    by code_simp
  then have h6': "\<forall>i\<in>set [4..<21]. slot_ingredient example_meal i = PStr []
              \<or> slot_ingredient example_meal i = PNone"
    by blast
  have r: "slot_retained example_meal 3" by code_simp
  have n: "\<not> (\<exists>i\<in>set [1..<21]. slot_raises example_meal i)" by code_simp
  have c1: "extract_ingredients example_meal = Inr (retained_entries_spec example_meal)"
    using ingredient_extraction [of example_meal] n by (simp only: if_False)
  have c2: "extract_ingredients example_meal = Inr [''1 tsp Salt'', ''2 pinch Pepper'']"
    using ingredient_extraction [of example_meal] h1 h2 h3 h4 h5 h6' by blast
  have c3: "retained_entries_spec example_meal = [''1 tsp Salt'', ''2 pinch Pepper'']"
    using c1 c2 by simp
  show ?thesis
    by (intro conjI) (rule h1 h2 h3 h4 h5 h6 r n c2 c3)+
qed

section \<open>Properties of the record cache\<close>

lemma load_recipe_cache_total:
  "\<exists>r. load_recipe_cache mid w = (Inr r, w)"
  by (auto simp: load_recipe_cache_def Let_def split: sum.splits)

lemma load_recipe_cache_world [simp]: "snd (load_recipe_cache mid w) = w"
  using load_recipe_cache_total [of mid w] by auto

lemma py_getitem_PDict:
  "py_getitem (PDict d) k = (case map_of d k of None \<Rightarrow> Inl KeyError | Some x \<Rightarrow> Inr x)"
  by (simp add: py_getitem_def)

lemma recipe_of_doc_recipe_doc: "recipe_of_doc (recipe_doc r) = Inr r"
  by (simp add: recipe_of_doc_def recipe_doc_def py_getitem_PDict)

lemma recipe_of_doc_Inr_iff:
  "(\<exists>r. recipe_of_doc data = Inr r) \<longleftrightarrow>
     (\<exists>d. data = PDict d \<and> list_all (\<lambda>k. map_of d k \<noteq> None) record_keys)"
proof (cases data)
  case (PDict d)
  then show ?thesis
    by (auto simp: recipe_of_doc_def py_getitem_PDict record_keys_def split: option.splits)
qed (simp_all add: recipe_of_doc_def py_getitem_def)

lemma load_recipe_cache_Some_iff:
  "(\<exists>r. fst (load_recipe_cache mid w) = Inr (Some r)) \<longleftrightarrow>
     parses_as_record (nodes w (recipe_cache_file mid))"
proof (cases "nodes w (recipe_cache_file mid)")
  case None
  then show ?thesis
    by (simp add: load_recipe_cache_def os_path_exists_def parses_as_record_def)
next
  case (Some n)
  show ?thesis
  proof (cases n)
    case Unreadable
    with Some show ?thesis
      by (simp add: load_recipe_cache_def os_path_exists_def parses_as_record_def read_json_def)
  next
    case (File b)
    show ?thesis
    proof (cases b)
      case (Json_Text data)
      have "(\<exists>r. fst (load_recipe_cache mid w) = Inr (Some r)) \<longleftrightarrow> (\<exists>r. recipe_of_doc data = Inr r)"
        using Some File Json_Text
        by (auto simp: load_recipe_cache_def os_path_exists_def read_json_def split: sum.splits)
      also have "\<dots> \<longleftrightarrow> parses_as_record (nodes w (recipe_cache_file mid))"
        using Some File Json_Text recipe_of_doc_Inr_iff [of data]
        by (cases data) (auto simp: parses_as_record_def)
      finally show ?thesis .
    qed (use Some File in \<open>simp_all add: load_recipe_cache_def os_path_exists_def
            parses_as_record_def read_json_def\<close>)
  qed
qed

lemma load_recipe_cache_cases:
  "fst (load_recipe_cache mid w) = Inr None \<or> (\<exists>r. fst (load_recipe_cache mid w) = Inr (Some r))"
  using load_recipe_cache_total [of mid w] by (metis fst_conv not_Some_eq)

lemma load_recipe_cache_doc:
  assumes "nodes w (recipe_cache_file mid) = Some (File (Json_Text (recipe_doc r)))"
  shows "load_recipe_cache mid w = (Inr (Some r), w)"
  using assms
  by (simp add: load_recipe_cache_def os_path_exists_def read_json_def recipe_of_doc_recipe_doc)

lemma load_recipe_cache_nodes:
  assumes "nodes w' (recipe_cache_file mid) = nodes w (recipe_cache_file mid)"
  shows "fst (load_recipe_cache mid w') = fst (load_recipe_cache mid w)"
proof -
  have "read_json (recipe_cache_file mid) w' = read_json (recipe_cache_file mid) w"
    using assms by (simp add: read_json_def)
  then show ?thesis
    using assms by (simp add: load_recipe_cache_def os_path_exists_def Let_def split: sum.splits)
qed

lemma save_recipe_cache_returns [simp]: "fst (save_recipe_cache r w) = Inr ()"
  by (simp add: save_recipe_cache_def write_json_def Let_def split: write_outcome.splits)

lemma save_recipe_cache_world:
  "snd (save_recipe_cache r w) =
     (case on_write w (recipe_cache_file (meal_id r)) of
        Write_Ok \<Rightarrow>
          w\<lparr>nodes := (nodes w)(recipe_cache_file (meal_id r) \<mapsto> File (Json_Text (recipe_doc r)))\<rparr>
      | Open_Fails \<Rightarrow> w
      | Dump_Fails \<Rightarrow>
          w\<lparr>nodes := (nodes w)(recipe_cache_file (meal_id r) \<mapsto> File (Other_Bytes []))\<rparr>)"
  by (simp add: save_recipe_cache_def write_json_def Let_def split: write_outcome.splits)

lemma save_recipe_cache_frame:
  "on_write (snd (save_recipe_cache r w)) = on_write w"
  "remote (snd (save_recipe_cache r w)) = remote w"
  "net_log (snd (save_recipe_cache r w)) = net_log w"
  "p \<noteq> recipe_cache_file (meal_id r) \<Longrightarrow> nodes (snd (save_recipe_cache r w)) p = nodes w p"
  by (simp_all add: save_recipe_cache_world split: write_outcome.splits)

lemma save_then_load:
  assumes "on_write w (recipe_cache_file (meal_id r)) = Write_Ok"
    and "recipe_cache_file mid = recipe_cache_file (meal_id r)"
  shows "load_recipe_cache mid (snd (save_recipe_cache r w)) = (Inr (Some r), snd (save_recipe_cache r w))"
  using assms by (intro load_recipe_cache_doc) (simp add: save_recipe_cache_world)

section \<open>Properties of the read-through workflow\<close>

lemma requests_get_eq:
  "requests_get url w =
     ((case remote w url of Conn_Error \<Rightarrow> Inl RequestException
       | Reply status body \<Rightarrow> Inr (status, body)),
      w\<lparr>net_log := net_log w @ [url]\<rparr>)"
  by (simp add: requests_get_def Let_def split: http_response.splits)

lemma except_request_world: "snd (except_request res) = snd res"
  by (cases res) (auto simp: except_request_def split: sum.splits)

lemma except_request_result:
  "fst (except_request (a, v)) =
     (case a of Inl e \<Rightarrow> if e = RequestException then Inr None else Inl e | Inr r \<Rightarrow> Inr r)"
  by (simp add: except_request_def split: sum.splits)

lemma fetch_recipe_world:
  "snd (fetch_recipe url w) = w\<lparr>net_log := net_log w @ [url]\<rparr>"
proof (cases "remote w url")
  case Conn_Error
  then show ?thesis
    by (simp add: fetch_recipe_def except_request_world requests_get_eq)
next
  case (Reply status body)
  then show ?thesis
    by (cases "response_json (status, body)")
       (simp_all add: fetch_recipe_def except_request_world requests_get_eq)
qed

lemma fetch_recipe_result:
  "fst (fetch_recipe url w) =
     (case remote w url of
        Conn_Error \<Rightarrow> Inr None
      | Reply status body \<Rightarrow>
          (case response_json (status, body) of
             Inl e \<Rightarrow> if e = RequestException then Inr None else Inl e
           | Inr data \<Rightarrow>
               (case recipe_of_data data of
                  Inl e \<Rightarrow> if e = RequestException then Inr None else Inl e
                | Inr r \<Rightarrow> Inr r)))"
proof (cases "remote w url")
  case Conn_Error
  then show ?thesis
    by (simp add: fetch_recipe_def except_request_result requests_get_eq)
next
  case (Reply status body)
  then show ?thesis
    by (cases "response_json (status, body)")
       (simp_all add: fetch_recipe_def except_request_result requests_get_eq)
qed

lemma get_recipe_details_world:
  "snd (get_recipe_details mid w) = w\<lparr>net_log := net_log w @ [lookup_url mid]\<rparr>"
  by (simp only: get_recipe_details_def fetch_recipe_world)

lemma load_recipe_cache_eq:
  "load_recipe_cache mid w = (fst (load_recipe_cache mid w), w)"
  by (metis load_recipe_cache_world prod.collapse)

lemma save_recipe_cache_eq:
  "save_recipe_cache r w = (Inr (), snd (save_recipe_cache r w))"
  by (metis save_recipe_cache_returns prod.collapse)

lemma read_through_hit:
  assumes "fst (load_recipe_cache mid w) = Inr (Some r)"
  shows "read_through mid w = (Inr (Some r), w)"
proof -
  have "load_recipe_cache mid w = (Inr (Some r), w)"
    using assms load_recipe_cache_eq [of mid w] by simp
  then show ?thesis by (simp add: read_through_def)
qed

lemma read_through_miss_found:
  assumes "fst (load_recipe_cache mid w) = Inr None"
    and "fst (get_recipe_details mid w) = Inr (Some r)"
  shows "read_through mid w =
     (Inr (Some r), snd (save_recipe_cache r (w\<lparr>net_log := net_log w @ [lookup_url mid]\<rparr>)))"
proof -
  let ?v = "w\<lparr>net_log := net_log w @ [lookup_url mid]\<rparr>"
  have l: "load_recipe_cache mid w = (Inr None, w)"
    using assms(1) load_recipe_cache_eq [of mid w] by simp
  have g: "get_recipe_details mid w = (Inr (Some r), ?v)"
    using assms(2) get_recipe_details_world [of mid w]
    by (metis prod.collapse)
  obtain v' where s: "save_recipe_cache r ?v = (Inr (), v')"
    using save_recipe_cache_eq by blast
  then have "snd (save_recipe_cache r ?v) = v'" by simp
  then show ?thesis
    by (simp add: read_through_def l g s)
qed

lemma read_through_miss_failed:
  assumes "fst (load_recipe_cache mid w) = Inr None"
    and "\<forall>r. fst (get_recipe_details mid w) \<noteq> Inr (Some r)"
  shows "read_through mid w =
     (fst (get_recipe_details mid w), w\<lparr>net_log := net_log w @ [lookup_url mid]\<rparr>)"
proof -
  let ?v = "w\<lparr>net_log := net_log w @ [lookup_url mid]\<rparr>"
  have l: "load_recipe_cache mid w = (Inr None, w)"
    using assms(1) load_recipe_cache_eq [of mid w] by simp
  obtain a where g: "get_recipe_details mid w = (a, ?v)"
    using get_recipe_details_world [of mid w] by (metis prod.collapse)
  have na: "\<forall>r. a \<noteq> Inr (Some r)" using assms(2) g by simp
  show ?thesis
  proof (cases a)
    case (Inl e)
    then show ?thesis by (simp add: read_through_def l g)
  next
    case (Inr ro)
    with na have "ro = None" by (cases ro) auto
    with Inr show ?thesis by (simp add: read_through_def l g)
  qed
qed

text \<open>
  Claim C4. In every world, \<open>load_recipe_cache\<close> returns without an exception and
  leaves the world as it is; when what is at the record's path does not parse as a record
  (unreadable, not JSON, not an object, or a key is missing) the result is None, and otherwise
  a record. \<open>save_recipe_cache\<close> returns without an exception in every world; when the
  write fails nothing outside the record's own path changes, a failing \<open>open\<close> changes
  nothing at all, and after a write that failed later the record is absent. The read-through
  workflow hands a fetched record to the caller whatever the write does.
\<close>

theorem cache_failures_do_not_escalate:
  "(\<exists>res. load_recipe_cache mid w = (Inr res, w))
   \<and> (\<not> parses_as_record (nodes w (recipe_cache_file mid)) \<longrightarrow>
        load_recipe_cache mid w = (Inr None, w))
   \<and> (parses_as_record (nodes w (recipe_cache_file mid)) \<longrightarrow>
        (\<exists>rec. load_recipe_cache mid w = (Inr (Some rec), w)))
   \<and> fst (save_recipe_cache r w) = Inr ()
   \<and> (on_write w (recipe_cache_file (meal_id r)) = Open_Fails \<longrightarrow>
        snd (save_recipe_cache r w) = w)
   \<and> (on_write w (recipe_cache_file (meal_id r)) = Dump_Fails \<longrightarrow>
        load_recipe_cache (meal_id r) (snd (save_recipe_cache r w))
          = (Inr None, snd (save_recipe_cache r w)))
   \<and> (on_write w (recipe_cache_file (meal_id r)) \<noteq> Write_Ok \<longrightarrow>
        (\<forall>p. p \<noteq> recipe_cache_file (meal_id r) \<longrightarrow>
           nodes (snd (save_recipe_cache r w)) p = nodes w p)
        \<and> on_write (snd (save_recipe_cache r w)) = on_write w
        \<and> remote (snd (save_recipe_cache r w)) = remote w
        \<and> net_log (snd (save_recipe_cache r w)) = net_log w)
   \<and> (fst (load_recipe_cache mid w) = Inr None
        \<and> fst (get_recipe_details mid w) = Inr (Some rec) \<longrightarrow>
        fst (read_through mid w) = Inr (Some rec))"
proof (intro conjI impI allI)
  show "\<exists>res. load_recipe_cache mid w = (Inr res, w)" by (rule load_recipe_cache_total)
next
  assume "\<not> parses_as_record (nodes w (recipe_cache_file mid))"
  then have "fst (load_recipe_cache mid w) = Inr None"
    using load_recipe_cache_Some_iff [of mid w] load_recipe_cache_cases [of mid w] by blast
  then show "load_recipe_cache mid w = (Inr None, w)"
    by (metis load_recipe_cache_world prod.collapse)
next
  assume "parses_as_record (nodes w (recipe_cache_file mid))"
  then obtain rec where "fst (load_recipe_cache mid w) = Inr (Some rec)"
    using load_recipe_cache_Some_iff [of mid w] by blast
  then have "load_recipe_cache mid w = (Inr (Some rec), w)"
    by (metis load_recipe_cache_world prod.collapse)
  then show "\<exists>rec. load_recipe_cache mid w = (Inr (Some rec), w)" ..
next
  show "fst (save_recipe_cache r w) = Inr ()" by simp
next
  assume "on_write w (recipe_cache_file (meal_id r)) = Open_Fails"
  then show "snd (save_recipe_cache r w) = w" by (simp add: save_recipe_cache_world)
next
  assume "on_write w (recipe_cache_file (meal_id r)) = Dump_Fails"
  then have "nodes (snd (save_recipe_cache r w)) (recipe_cache_file (meal_id r))
      = Some (File (Other_Bytes []))"
    by (simp add: save_recipe_cache_world)
  then show "load_recipe_cache (meal_id r) (snd (save_recipe_cache r w))
      = (Inr None, snd (save_recipe_cache r w))"
    by (simp add: load_recipe_cache_def os_path_exists_def read_json_def)
next
  fix p assume "p \<noteq> recipe_cache_file (meal_id r)"
  then show "nodes (snd (save_recipe_cache r w)) p = nodes w p"
    by (rule save_recipe_cache_frame(4))
next
  assume "fst (load_recipe_cache mid w) = Inr None
        \<and> fst (get_recipe_details mid w) = Inr (Some rec)"
  then show "fst (read_through mid w) = Inr (Some rec)"
    by (simp add: read_through_miss_found)
qed (simp_all add: save_recipe_cache_frame)

theorem cache_failures_do_not_escalate_witness:
  "\<not> parses_as_record (nodes corrupt_world (recipe_cache_file (PStr ''52772'')))
   \<and> load_recipe_cache (PStr ''52772'') corrupt_world = (Inr None, corrupt_world)
   \<and> parses_as_record (nodes cached_world (recipe_cache_file (PStr ''52772'')))
   \<and> (\<exists>rec. load_recipe_cache (PStr ''52772'') cached_world = (Inr (Some rec), cached_world))
   \<and> on_write readonly_world (recipe_cache_file (meal_id example_recipe)) = Open_Fails
   \<and> snd (save_recipe_cache example_recipe readonly_world) = readonly_world
   \<and> on_write corrupt_world (recipe_cache_file (meal_id example_recipe)) = Dump_Fails
   \<and> fst (load_recipe_cache (meal_id example_recipe)
            (snd (save_recipe_cache example_recipe corrupt_world))) = Inr None
   \<and> on_write readonly_world (recipe_cache_file (meal_id example_recipe)) \<noteq> Write_Ok
   \<and> ''images/52772.jpg'' \<noteq> recipe_cache_file (meal_id example_recipe)
   \<and> nodes (snd (save_recipe_cache example_recipe readonly_world)) ''images/52772.jpg''
       = nodes readonly_world ''images/52772.jpg''
   \<and> fst (load_recipe_cache (PStr ''52772'') readonly_world) = Inr None
   \<and> fst (get_recipe_details (PStr ''52772'') readonly_world) = Inr (Some example_recipe)
   \<and> fst (read_through (PStr ''52772'') readonly_world) = Inr (Some example_recipe)"
proof -
  have a: "\<not> parses_as_record (nodes corrupt_world (recipe_cache_file (PStr ''52772'')))"
    by code_simp
  have b: "parses_as_record (nodes cached_world (recipe_cache_file (PStr ''52772'')))"
    by code_simp
  have c: "on_write readonly_world (recipe_cache_file (meal_id example_recipe)) = Open_Fails"
    by code_simp
  have d: "on_write corrupt_world (recipe_cache_file (meal_id example_recipe)) = Dump_Fails"
    by code_simp
  have e: "''images/52772.jpg'' \<noteq> recipe_cache_file (meal_id example_recipe)"
    by code_simp
  have f: "fst (load_recipe_cache (PStr ''52772'') readonly_world) = Inr None"
    by code_simp
  have g: "fst (get_recipe_details (PStr ''52772'') readonly_world) = Inr (Some example_recipe)"
    by code_simp
  note t1 = cache_failures_do_not_escalate
              [of "PStr ''52772''" corrupt_world example_recipe example_recipe]
  note t2 = cache_failures_do_not_escalate
              [of "PStr ''52772''" cached_world example_recipe example_recipe]
  note t3 = cache_failures_do_not_escalate
              [of "PStr ''52772''" readonly_world example_recipe example_recipe]
  have 1: "load_recipe_cache (PStr ''52772'') corrupt_world = (Inr None, corrupt_world)"
    using t1 a by blast
  have 2: "\<exists>rec. load_recipe_cache (PStr ''52772'') cached_world = (Inr (Some rec), cached_world)"
    using t2 b by blast
  have 3: "snd (save_recipe_cache example_recipe readonly_world) = readonly_world"
    using t3 c by blast
  have "load_recipe_cache (meal_id example_recipe)
            (snd (save_recipe_cache example_recipe corrupt_world))
          = (Inr None, snd (save_recipe_cache example_recipe corrupt_world))"
    using t1 d by blast
  then have 4: "fst (load_recipe_cache (meal_id example_recipe)
            (snd (save_recipe_cache example_recipe corrupt_world))) = Inr None"
    by simp
  have c': "on_write readonly_world (recipe_cache_file (meal_id example_recipe)) \<noteq> Write_Ok"
    using c by simp
  have 5: "nodes (snd (save_recipe_cache example_recipe readonly_world)) ''images/52772.jpg''
       = nodes readonly_world ''images/52772.jpg''"
    using t3 c' e by blast
  have 6: "fst (read_through (PStr ''52772'') readonly_world) = Inr (Some example_recipe)"
    using t3 f g by blast
  show ?thesis
    using a 1 b 2 c 3 d 4 c' e 5 f g 6 by blast
qed





text \<open>
  Claim C1, as the code has it. Let the record for an identifier be absent from the cache
  and let the remote answer the lookup with a record R. Then the workflow sends one request,
  calls \<open>save_recipe_cache\<close> with R, and hands R to the caller together with the world
  that the save has left. When R is filed under the same cache path as the identifier and
  the write at that path works, the document of R is at the path in that world, and from
  then on, whatever the remote does, \<open>load_recipe_cache\<close> returns R and the workflow
  returns R without a request.
\<close>

theorem read_through_correct:
  assumes miss: "fst (load_recipe_cache mid w) = Inr None"
    and fetch: "fst (get_recipe_details mid w) = Inr (Some R)"
  shows "read_through mid w
           = (Inr (Some R),
              snd (save_recipe_cache R (w\<lparr>net_log := net_log w @ [lookup_url mid]\<rparr>)))
    \<and> net_log (snd (read_through mid w)) = net_log w @ [lookup_url mid]
    \<and> (recipe_cache_file (meal_id R) = recipe_cache_file mid
         \<and> on_write w (recipe_cache_file mid) = Write_Ok \<longrightarrow>
         nodes (snd (read_through mid w)) (recipe_cache_file mid)
           = Some (File (Json_Text (recipe_doc R)))
         \<and> (\<forall>rem. load_recipe_cache mid ((snd (read_through mid w))\<lparr>remote := rem\<rparr>)
                    = (Inr (Some R), (snd (read_through mid w))\<lparr>remote := rem\<rparr>)
                  \<and> read_through mid ((snd (read_through mid w))\<lparr>remote := rem\<rparr>)
                    = (Inr (Some R), (snd (read_through mid w))\<lparr>remote := rem\<rparr>)))"
proof -
  let ?v = "w\<lparr>net_log := net_log w @ [lookup_url mid]\<rparr>"
  let ?w' = "snd (save_recipe_cache R ?v)"
  have rt: "read_through mid w = (Inr (Some R), ?w')"
    using miss fetch by (rule read_through_miss_found)
  have lg: "net_log ?w' = net_log w @ [lookup_url mid]"
    by (simp add: save_recipe_cache_frame)
  have stored: "nodes ?w' (recipe_cache_file mid) = Some (File (Json_Text (recipe_doc R)))
      \<and> (\<forall>rem. load_recipe_cache mid (?w'\<lparr>remote := rem\<rparr>) = (Inr (Some R), ?w'\<lparr>remote := rem\<rparr>)
             \<and> read_through mid (?w'\<lparr>remote := rem\<rparr>) = (Inr (Some R), ?w'\<lparr>remote := rem\<rparr>))"
    if key: "recipe_cache_file (meal_id R) = recipe_cache_file mid"
      and ok: "on_write w (recipe_cache_file mid) = Write_Ok"
  proof -
    have ok': "on_write ?v (recipe_cache_file (meal_id R)) = Write_Ok"
      using ok key by simp
    have w': "?w' = ?v\<lparr>nodes := (nodes ?v)(recipe_cache_file mid \<mapsto> File (Json_Text (recipe_doc R)))\<rparr>"
      using ok' key by (simp add: save_recipe_cache_world)
    have n: "nodes ?w' (recipe_cache_file mid) = Some (File (Json_Text (recipe_doc R)))"
      by (simp add: w')
    have later: "load_recipe_cache mid (?w'\<lparr>remote := rem\<rparr>) = (Inr (Some R), ?w'\<lparr>remote := rem\<rparr>)
        \<and> read_through mid (?w'\<lparr>remote := rem\<rparr>) = (Inr (Some R), ?w'\<lparr>remote := rem\<rparr>)" for rem
    proof -
      have "nodes (?w'\<lparr>remote := rem\<rparr>) (recipe_cache_file mid)
          = Some (File (Json_Text (recipe_doc R)))"
        using n by simp
      then have l: "load_recipe_cache mid (?w'\<lparr>remote := rem\<rparr>)
          = (Inr (Some R), ?w'\<lparr>remote := rem\<rparr>)"
        by (rule load_recipe_cache_doc)
      then have "fst (load_recipe_cache mid (?w'\<lparr>remote := rem\<rparr>)) = Inr (Some R)" by simp
      then have "read_through mid (?w'\<lparr>remote := rem\<rparr>) = (Inr (Some R), ?w'\<lparr>remote := rem\<rparr>)"
        by (rule read_through_hit)
      with l show ?thesis by simp
    qed
    show ?thesis using n later by blast
  qed
  show ?thesis
    unfolding rt snd_conv using lg stored by blast
qed

theorem read_through_correct_witness:
  "fst (load_recipe_cache (PStr ''52772'') fresh_world) = Inr None
   \<and> fst (get_recipe_details (PStr ''52772'') fresh_world) = Inr (Some example_recipe)
   \<and> recipe_cache_file (meal_id example_recipe) = recipe_cache_file (PStr ''52772'')
   \<and> on_write fresh_world (recipe_cache_file (PStr ''52772'')) = Write_Ok
   \<and> fst (read_through (PStr ''52772'') fresh_world) = Inr (Some example_recipe)
   \<and> nodes (snd (read_through (PStr ''52772'') fresh_world)) (recipe_cache_file (PStr ''52772''))
        = Some (File (Json_Text (recipe_doc example_recipe)))
   \<and> net_log (snd (read_through (PStr ''52772'') fresh_world)) = [lookup_url (PStr ''52772'')]
   \<and> fst (load_recipe_cache (PStr ''52772'')
             ((snd (read_through (PStr ''52772'') fresh_world))\<lparr>remote := remote_down\<rparr>))
        = Inr (Some example_recipe)
   \<and> fst (read_through (PStr ''52772'')
             ((snd (read_through (PStr ''52772'') fresh_world))\<lparr>remote := remote_down\<rparr>))
        = Inr (Some example_recipe)"
proof -
  have a: "fst (load_recipe_cache (PStr ''52772'') fresh_world) = Inr None" by code_simp
  have b: "fst (get_recipe_details (PStr ''52772'') fresh_world) = Inr (Some example_recipe)"
    by code_simp
  have c: "recipe_cache_file (meal_id example_recipe) = recipe_cache_file (PStr ''52772'')"
    by code_simp
  have d: "on_write fresh_world (recipe_cache_file (PStr ''52772'')) = Write_Ok" by code_simp
  have e: "net_log fresh_world = []" by code_simp
  note t = read_through_correct [OF a b]
  from t have "read_through (PStr ''52772'') fresh_world
      = (Inr (Some example_recipe),
         snd (save_recipe_cache example_recipe
           (fresh_world\<lparr>net_log := net_log fresh_world @ [lookup_url (PStr ''52772'')]\<rparr>)))"
    by (rule conjunct1)
  then have 1: "fst (read_through (PStr ''52772'') fresh_world) = Inr (Some example_recipe)"
    by simp
  from t c d have 2: "nodes (snd (read_through (PStr ''52772'') fresh_world))
        (recipe_cache_file (PStr ''52772'')) = Some (File (Json_Text (recipe_doc example_recipe)))"
    by blast
  from t have "net_log (snd (read_through (PStr ''52772'') fresh_world))
      = net_log fresh_world @ [lookup_url (PStr ''52772'')]" by blast
  then have 3: "net_log (snd (read_through (PStr ''52772'') fresh_world))
      = [lookup_url (PStr ''52772'')]" using e by simp
  from t c d have "load_recipe_cache (PStr ''52772'')
             ((snd (read_through (PStr ''52772'') fresh_world))\<lparr>remote := remote_down\<rparr>)
        = (Inr (Some example_recipe),
           (snd (read_through (PStr ''52772'') fresh_world))\<lparr>remote := remote_down\<rparr>)
      \<and> read_through (PStr ''52772'')
             ((snd (read_through (PStr ''52772'') fresh_world))\<lparr>remote := remote_down\<rparr>)
        = (Inr (Some example_recipe),
           (snd (read_through (PStr ''52772'') fresh_world))\<lparr>remote := remote_down\<rparr>)"
    by blast
  then have 4: "fst (load_recipe_cache (PStr ''52772'')
             ((snd (read_through (PStr ''52772'') fresh_world))\<lparr>remote := remote_down\<rparr>))
        = Inr (Some example_recipe)"
    and 5: "fst (read_through (PStr ''52772'')
             ((snd (read_through (PStr ''52772'') fresh_world))\<lparr>remote := remote_down\<rparr>))
        = Inr (Some example_recipe)"
    by simp_all
  show ?thesis
    by (intro conjI) (rule a b c d 1 2 3 4 5)+
qed

text \<open>
  The claim as the specification states it fails where the write does not take place. On a
  disk that refuses the write, the workflow hands the fetched record to the caller, nothing
  is at the record's path afterwards, and with the remote down the next
  \<open>load_recipe_cache\<close> returns None. The same happens to the identifier that was
  asked for when the remote's record carries another identifier: the document is filed under
  the record's own.
\<close>

theorem read_through_not_cached_counterexample:
  "fst (load_recipe_cache (PStr ''52772'') readonly_world) = Inr None
   \<and> fst (get_recipe_details (PStr ''52772'') readonly_world) = Inr (Some example_recipe)
   \<and> fst (read_through (PStr ''52772'') readonly_world) = Inr (Some example_recipe)
   \<and> nodes (snd (read_through (PStr ''52772'') readonly_world))
         (recipe_cache_file (PStr ''52772'')) = None
   \<and> fst (load_recipe_cache (PStr ''52772'')
            ((snd (read_through (PStr ''52772'') readonly_world))\<lparr>remote := remote_down\<rparr>))
        = Inr None
   \<and> fst (load_recipe_cache (PStr ''1'') mismatch_world) = Inr None
   \<and> fst (read_through (PStr ''1'') mismatch_world) = Inr (Some example_recipe)
   \<and> nodes (snd (read_through (PStr ''1'') mismatch_world)) ''images/52772_recipe.json''
        = Some (File (Json_Text (recipe_doc example_recipe)))
   \<and> fst (load_recipe_cache (PStr ''1'')
            ((snd (read_through (PStr ''1'') mismatch_world))\<lparr>remote := remote_down\<rparr>))
        = Inr None"
  by code_simp

lemma load_recipe_cache_remote:
  "fst (load_recipe_cache mid (w\<lparr>remote := rem\<rparr>)) = fst (load_recipe_cache mid w)"
  by (rule load_recipe_cache_nodes) simp

lemma load_recipe_cache_net_log:
  "fst (load_recipe_cache mid (w\<lparr>net_log := l\<rparr>)) = fst (load_recipe_cache mid w)"
  by (rule load_recipe_cache_nodes) simp

text \<open>
  Claim C5. Let the record for an identifier be absent from the cache and let the lookup
  give no record (the remote fails, has no such meal, or answers with something the building
  of the Recipe raises on). Then the workflow passes this result on, has sent the one
  request, and leaves every file and the disk's behaviour as they were. When the remote is
  then replaced by one whose lookup gives a record R, the workflow sends a request again and
  returns R.
\<close>

theorem negative_results_not_cached:
  assumes miss: "fst (load_recipe_cache mid w) = Inr None"
    and fail: "\<forall>r. fst (get_recipe_details mid w) \<noteq> Inr (Some r)"
  shows "fst (read_through mid w) = fst (get_recipe_details mid w)
    \<and> nodes (snd (read_through mid w)) = nodes w
    \<and> on_write (snd (read_through mid w)) = on_write w
    \<and> net_log (snd (read_through mid w)) = net_log w @ [lookup_url mid]
    \<and> (\<forall>rem R.
          fst (get_recipe_details mid ((snd (read_through mid w))\<lparr>remote := rem\<rparr>)) = Inr (Some R)
          \<longrightarrow> fst (read_through mid ((snd (read_through mid w))\<lparr>remote := rem\<rparr>)) = Inr (Some R)
            \<and> net_log (snd (read_through mid ((snd (read_through mid w))\<lparr>remote := rem\<rparr>)))
                = net_log w @ [lookup_url mid, lookup_url mid])"
proof -
  let ?v = "w\<lparr>net_log := net_log w @ [lookup_url mid]\<rparr>"
  have rt: "read_through mid w = (fst (get_recipe_details mid w), ?v)"
    using miss fail by (rule read_through_miss_failed)
  have retry: "fst (read_through mid (?v\<lparr>remote := rem\<rparr>)) = Inr (Some R)
      \<and> net_log (snd (read_through mid (?v\<lparr>remote := rem\<rparr>)))
          = net_log w @ [lookup_url mid, lookup_url mid]"
    if found: "fst (get_recipe_details mid (?v\<lparr>remote := rem\<rparr>)) = Inr (Some R)" for rem R
  proof -
    have m: "fst (load_recipe_cache mid (?v\<lparr>remote := rem\<rparr>)) = Inr None"
      using miss by (simp only: load_recipe_cache_remote load_recipe_cache_net_log)
    have "read_through mid (?v\<lparr>remote := rem\<rparr>) =
        (Inr (Some R), snd (save_recipe_cache R
           ((?v\<lparr>remote := rem\<rparr>)\<lparr>net_log := net_log (?v\<lparr>remote := rem\<rparr>) @ [lookup_url mid]\<rparr>)))"
      using m found by (rule read_through_miss_found)
    then show ?thesis by (simp add: save_recipe_cache_frame)
  qed
  show ?thesis
    unfolding rt snd_conv fst_conv using retry by simp
qed

theorem negative_results_not_cached_witness:
  "fst (load_recipe_cache (PStr ''52772'') offline_world) = Inr None
   \<and> (\<forall>r. fst (get_recipe_details (PStr ''52772'') offline_world) \<noteq> Inr (Some r))
   \<and> fst (read_through (PStr ''52772'') offline_world) = Inr None
   \<and> nodes (snd (read_through (PStr ''52772'') offline_world)) = nodes offline_world
   \<and> fst (get_recipe_details (PStr ''52772'')
            ((snd (read_through (PStr ''52772'') offline_world))\<lparr>remote := remote_up\<rparr>))
        = Inr (Some example_recipe)
   \<and> fst (read_through (PStr ''52772'')
            ((snd (read_through (PStr ''52772'') offline_world))\<lparr>remote := remote_up\<rparr>))
        = Inr (Some example_recipe)
   \<and> net_log (snd (read_through (PStr ''52772'')
            ((snd (read_through (PStr ''52772'') offline_world))\<lparr>remote := remote_up\<rparr>)))
        = [lookup_url (PStr ''52772''), lookup_url (PStr ''52772'')]"
proof -
  have a: "fst (load_recipe_cache (PStr ''52772'') offline_world) = Inr None" by code_simp
  have b0: "fst (get_recipe_details (PStr ''52772'') offline_world) = Inr None" by code_simp
  then have b: "\<forall>r. fst (get_recipe_details (PStr ''52772'') offline_world) \<noteq> Inr (Some r)"
    by simp
  have e: "net_log offline_world = []" by code_simp
  have c: "fst (get_recipe_details (PStr ''52772'')
            ((snd (read_through (PStr ''52772'') offline_world))\<lparr>remote := remote_up\<rparr>))
        = Inr (Some example_recipe)" by code_simp
  note t = negative_results_not_cached [OF a b]
  from t b0 have 1: "fst (read_through (PStr ''52772'') offline_world) = Inr None" by simp
  from t have 2: "nodes (snd (read_through (PStr ''52772'') offline_world)) = nodes offline_world"
    by blast
  from t c have "fst (read_through (PStr ''52772'')
            ((snd (read_through (PStr ''52772'') offline_world))\<lparr>remote := remote_up\<rparr>))
        = Inr (Some example_recipe)
     \<and> net_log (snd (read_through (PStr ''52772'')
            ((snd (read_through (PStr ''52772'') offline_world))\<lparr>remote := remote_up\<rparr>)))
        = net_log offline_world @ [lookup_url (PStr ''52772''), lookup_url (PStr ''52772'')]"
    by blast
  then have 3: "fst (read_through (PStr ''52772'')
            ((snd (read_through (PStr ''52772'') offline_world))\<lparr>remote := remote_up\<rparr>))
        = Inr (Some example_recipe)
     \<and> net_log (snd (read_through (PStr ''52772'')
            ((snd (read_through (PStr ''52772'') offline_world))\<lparr>remote := remote_up\<rparr>)))
        = [lookup_url (PStr ''52772''), lookup_url (PStr ''52772'')]"
    using e by simp
  show ?thesis using a b 1 2 c 3 by blast
qed

lemma save_recipe_cache_absorb:
  assumes "recipe_cache_file (meal_id r') = recipe_cache_file (meal_id r)"
  shows "snd (save_recipe_cache r' (snd (save_recipe_cache r w))) = snd (save_recipe_cache r' w)"
proof (cases "on_write w (recipe_cache_file (meal_id r))")
  case Write_Ok
  then show ?thesis
    using assms by (simp add: save_recipe_cache_world)
next
  case Open_Fails
  then show ?thesis
    using assms by (simp add: save_recipe_cache_world)
next
  case Dump_Fails
  then show ?thesis
    using assms by (simp add: save_recipe_cache_world)
qed

text \<open>
  Claim C7. In every world, saving a record twice leaves the same world as saving it once,
  so \<open>load_recipe_cache\<close> returns the same after both; and saving another record with
  the same identifier afterwards leaves the same world as saving only that one, so nothing
  of the earlier record remains. When the write at the record's path works,
  \<open>load_recipe_cache\<close> returns the record after the two saves, and after the later
  save the file holds the document of the later record and \<open>load_recipe_cache\<close>
  returns the later record.
\<close>

theorem put_idempotent_and_replacing:
  "snd (save_recipe_cache r (snd (save_recipe_cache r w))) = snd (save_recipe_cache r w)
   \<and> fst (load_recipe_cache (meal_id r) (snd (save_recipe_cache r (snd (save_recipe_cache r w)))))
       = fst (load_recipe_cache (meal_id r) (snd (save_recipe_cache r w)))
   \<and> (meal_id r' = meal_id r \<longrightarrow>
        snd (save_recipe_cache r' (snd (save_recipe_cache r (snd (save_recipe_cache r w)))))
          = snd (save_recipe_cache r' w))
   \<and> (on_write w (recipe_cache_file (meal_id r)) = Write_Ok \<longrightarrow>
        load_recipe_cache (meal_id r) (snd (save_recipe_cache r (snd (save_recipe_cache r w))))
          = (Inr (Some r), snd (save_recipe_cache r w))
        \<and> (meal_id r' = meal_id r \<longrightarrow>
             nodes (snd (save_recipe_cache r' (snd (save_recipe_cache r (snd (save_recipe_cache r w))))))
                 (recipe_cache_file (meal_id r)) = Some (File (Json_Text (recipe_doc r')))
             \<and> fst (load_recipe_cache (meal_id r)
                     (snd (save_recipe_cache r' (snd (save_recipe_cache r (snd (save_recipe_cache r w)))))))
                 = Inr (Some r')))"
proof -
  let ?p = "recipe_cache_file (meal_id r)"
  let ?w1 = "snd (save_recipe_cache r w)"
  have twice: "snd (save_recipe_cache r ?w1) = ?w1"
    by (rule save_recipe_cache_absorb) simp
  have repl: "snd (save_recipe_cache r' ?w1) = snd (save_recipe_cache r' w)"
    if "meal_id r' = meal_id r"
    using that by (intro save_recipe_cache_absorb) simp
  have ld: "load_recipe_cache (meal_id r) ?w1 = (Inr (Some r), ?w1)"
    if ok: "on_write w ?p = Write_Ok"
    using ok by (intro save_then_load) simp_all
  have later: "nodes (snd (save_recipe_cache r' ?w1)) ?p = Some (File (Json_Text (recipe_doc r')))
      \<and> fst (load_recipe_cache (meal_id r) (snd (save_recipe_cache r' ?w1))) = Inr (Some r')"
    if ok: "on_write w ?p = Write_Ok" and same: "meal_id r' = meal_id r"
  proof -
    have ok': "on_write w (recipe_cache_file (meal_id r')) = Write_Ok" using ok same by simp
    have b: "nodes (snd (save_recipe_cache r' w)) ?p = Some (File (Json_Text (recipe_doc r')))"
      using ok' same by (simp add: save_recipe_cache_world)
    have "load_recipe_cache (meal_id r) (snd (save_recipe_cache r' w))
        = (Inr (Some r'), snd (save_recipe_cache r' w))"
      using b by (rule load_recipe_cache_doc)
    then show ?thesis using b repl [OF same] by simp
  qed
  show ?thesis
    unfolding twice using repl ld later by blast
qed

theorem put_idempotent_and_replacing_witness:
  "on_write fresh_world (recipe_cache_file (meal_id example_recipe)) = Write_Ok
   \<and> meal_id other_recipe = meal_id example_recipe
   \<and> fst (load_recipe_cache (meal_id example_recipe)
        (snd (save_recipe_cache example_recipe (snd (save_recipe_cache example_recipe fresh_world)))))
       = Inr (Some example_recipe)
   \<and> fst (load_recipe_cache (meal_id example_recipe)
        (snd (save_recipe_cache other_recipe
           (snd (save_recipe_cache example_recipe (snd (save_recipe_cache example_recipe fresh_world)))))))
       = Inr (Some other_recipe)
   \<and> snd (save_recipe_cache other_recipe
           (snd (save_recipe_cache example_recipe (snd (save_recipe_cache example_recipe fresh_world)))))
       = snd (save_recipe_cache other_recipe fresh_world)
   \<and> other_recipe \<noteq> example_recipe"
proof -
  have a: "on_write fresh_world (recipe_cache_file (meal_id example_recipe)) = Write_Ok"
    by code_simp
  have b: "meal_id other_recipe = meal_id example_recipe" by code_simp
  have c: "other_recipe \<noteq> example_recipe" by code_simp
  note t = put_idempotent_and_replacing [of example_recipe fresh_world other_recipe]
  from t a have "load_recipe_cache (meal_id example_recipe)
        (snd (save_recipe_cache example_recipe (snd (save_recipe_cache example_recipe fresh_world))))
       = (Inr (Some example_recipe), snd (save_recipe_cache example_recipe fresh_world))"
    by blast
  then have 1: "fst (load_recipe_cache (meal_id example_recipe)
        (snd (save_recipe_cache example_recipe (snd (save_recipe_cache example_recipe fresh_world)))))
       = Inr (Some example_recipe)" by simp
  from t a b have 2: "fst (load_recipe_cache (meal_id example_recipe)
        (snd (save_recipe_cache other_recipe
           (snd (save_recipe_cache example_recipe (snd (save_recipe_cache example_recipe fresh_world)))))))
       = Inr (Some other_recipe)" by blast
  from t b have 3: "snd (save_recipe_cache other_recipe
           (snd (save_recipe_cache example_recipe (snd (save_recipe_cache example_recipe fresh_world)))))
       = snd (save_recipe_cache other_recipe fresh_world)" by blast
  show ?thesis
    by (intro conjI) (rule a b 1 2 3 c)+
qed

section \<open>The format of an entry\<close>
















section \<open>Properties of the image cache\<close>



lemma image_resize_world:
  "image_resize (w\<lparr>net_log := l\<rparr>) im sz = image_resize w im sz"
  "image_resize (w\<lparr>nodes := n\<rparr>) im sz = image_resize w im sz"
  by (simp_all add: image_resize_def)

lemma jpeg_bytes_world:
  "jpeg_bytes (w\<lparr>net_log := l\<rparr>) im = jpeg_bytes w im"
  by (simp add: jpeg_bytes_def)


lemma load_image_cached_exists:
  assumes "nodes w (image_cache_file mid) \<noteq> None"
  shows "snd (load_image_cached url mid wd ht w) = w"
  using assms
  by (simp add: Let_def load_image_cached_def load_image_block_def os_path_exists_def split: sum.splits)

lemma load_image_cached_miss:
  assumes "nodes w (image_cache_file mid) = None"
  shows "load_image_cached url mid wd ht w =
     (case url of
        PStr u \<Rightarrow>
          (case remote w u of
             Reply status (Image_Bytes fmt k img) \<Rightarrow>
               if img_intact img \<and> jpeg_mode (img_mode img)
                  \<and> on_write w (image_cache_file mid) = Write_Ok
               then ((case image_resize w img (wd, ht) of Inl e \<Rightarrow> Inr None | Inr i \<Rightarrow> Inr (Some i)),
                     w\<lparr>net_log := net_log w @ [u],
                       nodes := (nodes w)(image_cache_file mid \<mapsto> File (jpeg_bytes w img))\<rparr>)
               else (Inr None, w\<lparr>net_log := net_log w @ [u]\<rparr>)
           | _ \<Rightarrow> (Inr None, w\<lparr>net_log := net_log w @ [u]\<rparr>))
      | _ \<Rightarrow> (Inr None, w))"
proof (cases url)
  case (PStr u)
  show ?thesis
  proof (cases "remote w u")
    case Conn_Error
    then show ?thesis
      using assms PStr
      by (simp add: Let_def load_image_cached_def load_image_block_def os_path_exists_def requests_get_eq)
  next
    case (Reply status body)
    show ?thesis
    proof (cases body)
      case (Image_Bytes fmt k img)
      then show ?thesis
        using assms PStr Reply
        by (simp add: Let_def load_image_cached_def load_image_block_def os_path_exists_def
              requests_get_eq image_open_def image_save_jpeg_def image_resize_world
              jpeg_bytes_world split: sum.splits)
    qed (use assms PStr Reply in \<open>simp_all add: Let_def load_image_cached_def load_image_block_def
           os_path_exists_def requests_get_eq image_open_def\<close>)
  qed
qed (use assms in \<open>simp_all add: Let_def load_image_cached_def load_image_block_def os_path_exists_def\<close>)

lemma load_image_cached_frame:
  assumes "p \<noteq> image_cache_file mid"
  shows "nodes (snd (load_image_cached url mid wd ht w)) p = nodes w p"
proof (cases "nodes w (image_cache_file mid)")
  case None
  show ?thesis
    unfolding load_image_cached_miss [OF None]
    using assms by (simp split: pyval.splits http_response.splits bytes.splits)
next
  case (Some n)
  then show ?thesis by (simp add: load_image_cached_exists)
qed

lemma load_image_cached_returns:
  "\<exists>r. fst (load_image_cached url mid wd ht w) = Inr r"
  by (simp add: Let_def load_image_cached_def split: prod.splits sum.splits)

section \<open>Cache keys and storage locations\<close>

lemma join_images_relative:
  assumes "nm = [] \<or> hd nm \<noteq> CHR ''/''"
  shows "os_path_join images_dir nm = ''images/'' @ nm"
  using assms by (auto simp: os_path_join_def images_dir_def)

lemma join_images_absolute:
  assumes "nm \<noteq> []" and "hd nm = CHR ''/''"
  shows "os_path_join images_dir nm = nm"
  using assms by (simp add: os_path_join_def)

lemma split_slash_none:
  assumes "CHR ''/'' \<notin> set t"
  shows "split_slash t = [t]"
  using assms by (induction t) auto

lemma split_slash_images: "split_slash (''images/'' @ t) = ''images'' # split_slash t"
  by simp

lemma components_images:
  assumes "CHR ''/'' \<notin> set nm" and "nm \<noteq> []" and "nm \<noteq> ''.''" and "nm \<noteq> ''..''"
  shows "path_components (''images/'' @ nm) = [''images'', nm]"
  using assms by (simp add: path_components_def split_slash_none)

lemma not_absolute_images: "\<not> is_absolute (''images/'' @ nm)"
  by (simp add: is_absolute_def)

lemma in_cache_dir_not_absolute:
  assumes "nm \<noteq> []" and "hd nm = CHR ''/''"
  shows "\<not> in_cache_dir nm"
  using assms by (simp add: in_cache_dir_def is_absolute_def)

lemma other_place_neq:
  assumes "other_place p q"
  shows "p \<noteq> q"
  using assms by (auto simp: other_place_def)

lemma key_location:
  assumes "CHR ''/'' \<notin> set sfx" and "3 < length sfx"
  shows "CHR ''/'' \<notin> set t \<longrightarrow>
           os_path_join images_dir (t @ sfx) = ''images/'' @ t @ sfx
           \<and> path_components (os_path_join images_dir (t @ sfx)) = [''images'', t @ sfx]
           \<and> in_cache_dir (os_path_join images_dir (t @ sfx))"
    and "t \<noteq> [] \<and> hd t = CHR ''/'' \<longrightarrow>
           os_path_join images_dir (t @ sfx) = t @ sfx
           \<and> \<not> in_cache_dir (os_path_join images_dir (t @ sfx))"
    and "t = [] \<or> hd t \<noteq> CHR ''/'' \<longrightarrow>
           os_path_join images_dir (t @ sfx) = ''images/'' @ t @ sfx"
proof -
  have ne: "sfx \<noteq> []" using assms(2) by auto
  show 3: "t = [] \<or> hd t \<noteq> CHR ''/'' \<longrightarrow>
           os_path_join images_dir (t @ sfx) = ''images/'' @ t @ sfx"
  proof
    assume h: "t = [] \<or> hd t \<noteq> CHR ''/''"
    have "hd sfx \<in> set sfx" using ne by simp
    then have "hd sfx \<noteq> CHR ''/''" using assms(1) by auto
    then have "hd (t @ sfx) \<noteq> CHR ''/''" using h by (cases t) auto
    then show "os_path_join images_dir (t @ sfx) = ''images/'' @ t @ sfx"
      by (simp add: join_images_relative)
  qed
  show "CHR ''/'' \<notin> set t \<longrightarrow>
           os_path_join images_dir (t @ sfx) = ''images/'' @ t @ sfx
           \<and> path_components (os_path_join images_dir (t @ sfx)) = [''images'', t @ sfx]
           \<and> in_cache_dir (os_path_join images_dir (t @ sfx))"
  proof
    assume no: "CHR ''/'' \<notin> set t"
    then have "t = [] \<or> hd t \<noteq> CHR ''/''" by (cases t) auto
    then have j: "os_path_join images_dir (t @ sfx) = ''images/'' @ (t @ sfx)"
      using 3 by simp
    have len: "3 < length (t @ sfx)" using assms(2) by simp
    have c: "path_components (''images/'' @ (t @ sfx)) = [''images'', t @ sfx]"
    proof (rule components_images)
      show "CHR ''/'' \<notin> set (t @ sfx)" using no assms(1) by simp
      show "t @ sfx \<noteq> []" using ne by simp
      show "t @ sfx \<noteq> ''.''"
      proof
        assume "t @ sfx = ''.''"
        then have "length (t @ sfx) = 1" by simp
        with len show False by simp
      qed
      show "t @ sfx \<noteq> ''..''"
      proof
        assume "t @ sfx = ''..''"
        then have "length (t @ sfx) = 2" by simp
        with len show False by simp
      qed
    qed
    have "in_cache_dir (''images/'' @ (t @ sfx))"
      unfolding in_cache_dir_def c using not_absolute_images [of "t @ sfx"] by simp
    with j c show "os_path_join images_dir (t @ sfx) = ''images/'' @ t @ sfx
           \<and> path_components (os_path_join images_dir (t @ sfx)) = [''images'', t @ sfx]
           \<and> in_cache_dir (os_path_join images_dir (t @ sfx))" by simp
  qed
  show "t \<noteq> [] \<and> hd t = CHR ''/'' \<longrightarrow>
           os_path_join images_dir (t @ sfx) = t @ sfx
           \<and> \<not> in_cache_dir (os_path_join images_dir (t @ sfx))"
  proof
    assume h: "t \<noteq> [] \<and> hd t = CHR ''/''"
    then have j: "os_path_join images_dir (t @ sfx) = t @ sfx"
      by (simp add: join_images_absolute)
    have "\<not> in_cache_dir (t @ sfx)"
      using h by (intro in_cache_dir_not_absolute) simp_all
    with j show "os_path_join images_dir (t @ sfx) = t @ sfx
           \<and> \<not> in_cache_dir (os_path_join images_dir (t @ sfx))" by simp
  qed
qed

text \<open>
  Claim C9, as the code has it, with paths read under the POSIX rules and links not
  followed. The text of the identifier goes into the storage location as it is, with no
  validation: the record is at \<open>images\<close> joined with the text and \<open>_recipe.json\<close>,
  the picture at \<open>images\<close> joined with the text and \<open>.jpg\<close>. When the text has no
  slash, both locations are files directly inside the cache directory. When the text begins
  with a slash the directory is dropped and the location is the absolute path made of the
  text and the suffix, outside the cache directory. In every other case the text follows
  \<open>images/\<close> unchanged, whatever components it has. \<open>save_recipe_cache\<close> writes its
  document at that location whenever the write works, and \<open>save_recipe_cache\<close> and
  \<open>load_image_cached\<close> leave every path that names another place as it was;
  \<open>load_recipe_cache\<close> changes nothing and its result depends on the file at the
  location only.
\<close>

theorem cache_key_verbatim:
  "(CHR ''/'' \<notin> set (py_str mid) \<longrightarrow>
       recipe_cache_file mid = ''images/'' @ py_str mid @ ''_recipe.json''
       \<and> image_cache_file mid = ''images/'' @ py_str mid @ ''.jpg''
       \<and> path_components (recipe_cache_file mid) = [''images'', py_str mid @ ''_recipe.json'']
       \<and> path_components (image_cache_file mid) = [''images'', py_str mid @ ''.jpg'']
       \<and> in_cache_dir (recipe_cache_file mid) \<and> in_cache_dir (image_cache_file mid))
   \<and> (py_str mid \<noteq> [] \<and> hd (py_str mid) = CHR ''/'' \<longrightarrow>
       recipe_cache_file mid = py_str mid @ ''_recipe.json''
       \<and> image_cache_file mid = py_str mid @ ''.jpg''
       \<and> \<not> in_cache_dir (recipe_cache_file mid) \<and> \<not> in_cache_dir (image_cache_file mid))
   \<and> (py_str mid = [] \<or> hd (py_str mid) \<noteq> CHR ''/'' \<longrightarrow>
       recipe_cache_file mid = ''images/'' @ py_str mid @ ''_recipe.json''
       \<and> image_cache_file mid = ''images/'' @ py_str mid @ ''.jpg'')
   \<and> (on_write w (recipe_cache_file (meal_id r)) = Write_Ok \<longrightarrow>
         nodes (snd (save_recipe_cache r w)) (recipe_cache_file (meal_id r))
           = Some (File (Json_Text (recipe_doc r))))
   \<and> (\<forall>p. other_place p (recipe_cache_file (meal_id r)) \<longrightarrow>
         nodes (snd (save_recipe_cache r w)) p = nodes w p)
   \<and> (\<forall>p. other_place p (image_cache_file mid) \<longrightarrow>
         nodes (snd (load_image_cached url mid wd ht w)) p = nodes w p)
   \<and> snd (load_recipe_cache mid w) = w
   \<and> (\<forall>w'. nodes w' (recipe_cache_file mid) = nodes w (recipe_cache_file mid) \<longrightarrow>
         fst (load_recipe_cache mid w') = fst (load_recipe_cache mid w))"
proof -
  have a: "CHR ''/'' \<notin> set ''_recipe.json''" "3 < length ''_recipe.json''" by simp_all
  have b: "CHR ''/'' \<notin> set ''.jpg''" "3 < length ''.jpg''" by simp_all
  note r = key_location [OF a, of "py_str mid", folded recipe_cache_file_def]
  note i = key_location [OF b, of "py_str mid", folded image_cache_file_def]
  have 1: "CHR ''/'' \<notin> set (py_str mid) \<longrightarrow>
       recipe_cache_file mid = ''images/'' @ py_str mid @ ''_recipe.json''
       \<and> image_cache_file mid = ''images/'' @ py_str mid @ ''.jpg''
       \<and> path_components (recipe_cache_file mid) = [''images'', py_str mid @ ''_recipe.json'']
       \<and> path_components (image_cache_file mid) = [''images'', py_str mid @ ''.jpg'']
       \<and> in_cache_dir (recipe_cache_file mid) \<and> in_cache_dir (image_cache_file mid)"
    using r(1) i(1) by blast
  have 2: "py_str mid \<noteq> [] \<and> hd (py_str mid) = CHR ''/'' \<longrightarrow>
       recipe_cache_file mid = py_str mid @ ''_recipe.json''
       \<and> image_cache_file mid = py_str mid @ ''.jpg''
       \<and> \<not> in_cache_dir (recipe_cache_file mid) \<and> \<not> in_cache_dir (image_cache_file mid)"
    using r(2) i(2) by blast
  have 3: "py_str mid = [] \<or> hd (py_str mid) \<noteq> CHR ''/'' \<longrightarrow>
       recipe_cache_file mid = ''images/'' @ py_str mid @ ''_recipe.json''
       \<and> image_cache_file mid = ''images/'' @ py_str mid @ ''.jpg''"
    using r(3) i(3) by blast
  have 4: "on_write w (recipe_cache_file (meal_id r)) = Write_Ok \<longrightarrow>
         nodes (snd (save_recipe_cache r w)) (recipe_cache_file (meal_id r))
           = Some (File (Json_Text (recipe_doc r)))"
    by (simp add: save_recipe_cache_world)
  have 5: "\<forall>p. other_place p (recipe_cache_file (meal_id r)) \<longrightarrow>
         nodes (snd (save_recipe_cache r w)) p = nodes w p"
    using save_recipe_cache_frame(4) [of _ r w] other_place_neq by blast
  have 6: "\<forall>p. other_place p (image_cache_file mid) \<longrightarrow>
         nodes (snd (load_image_cached url mid wd ht w)) p = nodes w p"
    using load_image_cached_frame [of _ mid url wd ht w] other_place_neq by blast
  have 7: "snd (load_recipe_cache mid w) = w" by (rule load_recipe_cache_world)
  have 8: "\<forall>w'. nodes w' (recipe_cache_file mid) = nodes w (recipe_cache_file mid) \<longrightarrow>
         fst (load_recipe_cache mid w') = fst (load_recipe_cache mid w)"
    using load_recipe_cache_nodes [of _ mid w] by blast
  show ?thesis
    by (intro conjI) (rule 1 2 3 4 5 6 7 8)+
qed

theorem cache_key_verbatim_witness:
  "CHR ''/'' \<notin> set (py_str (PStr ''52772''))
   \<and> recipe_cache_file (PStr ''52772'') = ''images/52772_recipe.json''
   \<and> image_cache_file (PStr ''52772'') = ''images/52772.jpg''
   \<and> path_components (recipe_cache_file (PStr ''52772'')) = [''images'', ''52772_recipe.json'']
   \<and> in_cache_dir (recipe_cache_file (PStr ''52772''))
   \<and> in_cache_dir (image_cache_file (PStr ''52772''))
   \<and> py_str (PStr ''/tmp/x'') \<noteq> [] \<and> hd (py_str (PStr ''/tmp/x'')) = CHR ''/''
   \<and> recipe_cache_file (PStr ''/tmp/x'') = ''/tmp/x_recipe.json''
   \<and> \<not> in_cache_dir (image_cache_file (PStr ''/tmp/x''))
   \<and> hd (py_str (PStr ''./52772'')) \<noteq> CHR ''/''
   \<and> recipe_cache_file (PStr ''./52772'') = ''images/./52772_recipe.json''
   \<and> in_cache_dir (recipe_cache_file (PStr ''./52772''))
   \<and> on_write fresh_world (recipe_cache_file (meal_id example_recipe)) = Write_Ok
   \<and> nodes (snd (save_recipe_cache example_recipe fresh_world)) ''images/52772_recipe.json''
        = Some (File (Json_Text (recipe_doc example_recipe)))
   \<and> other_place ''images/52772.jpg'' (recipe_cache_file (meal_id example_recipe))
   \<and> nodes (snd (save_recipe_cache example_recipe fresh_world)) ''images/52772.jpg''
        = nodes fresh_world ''images/52772.jpg''
   \<and> other_place ''images/52772_recipe.json'' (image_cache_file (PStr ''52772''))
   \<and> nodes (snd (load_image_cached (PStr ''http://img/52772.jpg'') (PStr ''52772'') 120 90 fresh_world))
         ''images/52772_recipe.json'' = nodes fresh_world ''images/52772_recipe.json''
   \<and> nodes offline_world (recipe_cache_file (PStr ''52772''))
        = nodes fresh_world (recipe_cache_file (PStr ''52772''))
   \<and> fst (load_recipe_cache (PStr ''52772'') offline_world)
        = fst (load_recipe_cache (PStr ''52772'') fresh_world)"
proof -
  have a: "CHR ''/'' \<notin> set (py_str (PStr ''52772''))" by code_simp
  have c: "py_str (PStr ''/tmp/x'') \<noteq> [] \<and> hd (py_str (PStr ''/tmp/x'')) = CHR ''/''"
    by code_simp
  have c1: "py_str (PStr ''/tmp/x'') \<noteq> []" and c2: "hd (py_str (PStr ''/tmp/x'')) = CHR ''/''"
    using c by simp_all
  have d: "other_place ''images/52772.jpg'' (recipe_cache_file (meal_id example_recipe))"
    and e: "other_place ''images/52772_recipe.json'' (image_cache_file (PStr ''52772''))"
    by code_simp+
  have f: "hd (py_str (PStr ''./52772'')) \<noteq> CHR ''/''" by code_simp
  have g: "in_cache_dir (recipe_cache_file (PStr ''./52772''))" by code_simp
  have h: "on_write fresh_world (recipe_cache_file (meal_id example_recipe)) = Write_Ok"
    by code_simp
  have k: "nodes offline_world (recipe_cache_file (PStr ''52772''))
        = nodes fresh_world (recipe_cache_file (PStr ''52772''))" by code_simp
  have s1: "''images/'' @ py_str (PStr ''52772'') @ ''_recipe.json'' = ''images/52772_recipe.json''"
    and s2: "py_str (PStr ''/tmp/x'') @ ''_recipe.json'' = ''/tmp/x_recipe.json''"
    and s3: "''images/'' @ py_str (PStr ''52772'') @ ''.jpg'' = ''images/52772.jpg''"
    and s4: "py_str (PStr ''52772'') @ ''_recipe.json'' = ''52772_recipe.json''"
    and s5: "''images/'' @ py_str (PStr ''./52772'') @ ''_recipe.json'' = ''images/./52772_recipe.json''"
    and s6: "recipe_cache_file (meal_id example_recipe) = ''images/52772_recipe.json''"
    by code_simp+
  note t1 = cache_key_verbatim [where mid = "PStr ''52772''" and r = example_recipe
              and w = fresh_world and url = "PStr ''http://img/52772.jpg''"
              and wd = 120 and ht = 90]
  note t2 = cache_key_verbatim [where mid = "PStr ''/tmp/x''" and r = example_recipe
              and w = fresh_world and url = "PStr ''http://img/52772.jpg''"
              and wd = 120 and ht = 90]
  note t3 = cache_key_verbatim [where mid = "PStr ''./52772''" and r = example_recipe
              and w = fresh_world and url = "PStr ''http://img/52772.jpg''"
              and wd = 120 and ht = 90]
  note u1 = t1 [THEN conjunct1, THEN mp, OF a]
  have 1: "recipe_cache_file (PStr ''52772'') = ''images/52772_recipe.json''"
    using u1 [THEN conjunct1] s1 by simp
  have q1b: "image_cache_file (PStr ''52772'') = ''images/52772.jpg''"
    using u1 [THEN conjunct2, THEN conjunct1] s3 by simp
  have q1c: "path_components (recipe_cache_file (PStr ''52772'')) = [''images'', ''52772_recipe.json'']"
    using u1 [THEN conjunct2, THEN conjunct2, THEN conjunct1] s4 by simp
  have 2: "in_cache_dir (recipe_cache_file (PStr ''52772''))"
    by (rule u1 [THEN conjunct2, THEN conjunct2, THEN conjunct2, THEN conjunct2, THEN conjunct1])
  have q2b: "in_cache_dir (image_cache_file (PStr ''52772''))"
    by (rule u1 [THEN conjunct2, THEN conjunct2, THEN conjunct2, THEN conjunct2, THEN conjunct2])
  note u2 = t2 [THEN conjunct2, THEN conjunct1, THEN mp, OF c]
  have 3: "recipe_cache_file (PStr ''/tmp/x'') = ''/tmp/x_recipe.json''"
    using u2 [THEN conjunct1] s2 by simp
  have 4: "\<not> in_cache_dir (image_cache_file (PStr ''/tmp/x''))"
    by (rule u2 [THEN conjunct2, THEN conjunct2, THEN conjunct2])
  have f': "py_str (PStr ''./52772'') = [] \<or> hd (py_str (PStr ''./52772'')) \<noteq> CHR ''/''"
    using f by (rule disjI2)
  note u3 = t3 [THEN conjunct2, THEN conjunct2, THEN conjunct1, THEN mp, OF f']
  have 5: "recipe_cache_file (PStr ''./52772'') = ''images/./52772_recipe.json''"
    using u3 [THEN conjunct1] s5 by simp
  note r4 = t1 [THEN conjunct2, THEN conjunct2, THEN conjunct2]
  have "nodes (snd (save_recipe_cache example_recipe fresh_world))
          (recipe_cache_file (meal_id example_recipe))
        = Some (File (Json_Text (recipe_doc example_recipe)))"
    by (rule r4 [THEN conjunct1, THEN mp, OF h])
  then have 6: "nodes (snd (save_recipe_cache example_recipe fresh_world)) ''images/52772_recipe.json''
        = Some (File (Json_Text (recipe_doc example_recipe)))"
    by (simp only: s6)
  have 7: "nodes (snd (save_recipe_cache example_recipe fresh_world)) ''images/52772.jpg''
        = nodes fresh_world ''images/52772.jpg''"
    by (rule r4 [THEN conjunct2, THEN conjunct1, rule_format, OF d])
  have 8: "nodes (snd (load_image_cached (PStr ''http://img/52772.jpg'') (PStr ''52772'') 120 90 fresh_world))
         ''images/52772_recipe.json'' = nodes fresh_world ''images/52772_recipe.json''"
    by (rule r4 [THEN conjunct2, THEN conjunct2, THEN conjunct1, rule_format, OF e])
  have 9: "fst (load_recipe_cache (PStr ''52772'') offline_world)
        = fst (load_recipe_cache (PStr ''52772'') fresh_world)"
    by (rule r4 [THEN conjunct2, THEN conjunct2, THEN conjunct2, THEN conjunct2, rule_format, OF k])
  show ?thesis
    by (intro conjI) (rule a 1 q1b q1c 2 q2b c1 c2 3 4 f 5 g h 6 d 7 e 8 k 9)+
qed

text \<open>
  The claim as the specification states it fails: nothing checks the identifier. The cache
  path of the identifier \<open>../52772\<close> names a place outside the cache directory, and
  \<open>save_recipe_cache\<close> writes the document there; an identifier that begins with a
  slash names any absolute path.
\<close>

theorem cache_key_traversal_counterexample:
  "recipe_cache_file (meal_id traversal_recipe) = ''images/../52772_recipe.json''
   \<and> path_components (recipe_cache_file (meal_id traversal_recipe)) = [''52772_recipe.json'']
   \<and> \<not> in_cache_dir (recipe_cache_file (meal_id traversal_recipe))
   \<and> nodes fresh_world ''images/../52772_recipe.json'' = None
   \<and> nodes (snd (save_recipe_cache traversal_recipe fresh_world)) ''images/../52772_recipe.json''
        = Some (File (Json_Text (recipe_doc traversal_recipe)))
   \<and> image_cache_file (PStr ''/etc/cron.d/job'') = ''/etc/cron.d/job.jpg''
   \<and> \<not> in_cache_dir (image_cache_file (PStr ''/etc/cron.d/job''))"
  by code_simp

section \<open>What the image cache stores and returns\<close>

lemma pixels_update_same:
  "(im\<lparr>img_pixels := p\<rparr> = im) = (p = img_pixels im)"
  by (cases im) simp

lemma jpeg_bytes_eq_fetched:
  "(jpeg_bytes w img = Image_Bytes fmt k img)
     = (fmt = JPEG \<and> k = fst (jpeg_encode w img) \<and> img_pixels img = snd (jpeg_encode w img))"
  by (auto simp: jpeg_bytes_def pixels_update_same)

lemma load_image_cached_stored:
  assumes absent: "nodes w (image_cache_file mid) = None"
  shows "nodes (snd (load_image_cached url mid wd ht w)) (image_cache_file mid) \<noteq> None
     \<longleftrightarrow> (\<exists>u status fmt k img. url = PStr u \<and> remote w u = Reply status (Image_Bytes fmt k img)
            \<and> img_intact img \<and> jpeg_mode (img_mode img)
            \<and> on_write w (image_cache_file mid) = Write_Ok)"
  unfolding load_image_cached_miss [OF absent]
  using absent by (auto split: pyval.splits http_response.splits bytes.splits)

lemma load_image_cached_stored_value:
  assumes absent: "nodes w (image_cache_file mid) = None"
    and "url = PStr u" and "remote w u = Reply status (Image_Bytes fmt k img)"
    and "img_intact img" and "jpeg_mode (img_mode img)"
    and "on_write w (image_cache_file mid) = Write_Ok"
  shows "load_image_cached url mid wd ht w =
     ((case image_resize w img (wd, ht) of Inl e \<Rightarrow> Inr None | Inr i \<Rightarrow> Inr (Some i)),
      w\<lparr>net_log := net_log w @ [u],
        nodes := (nodes w)(image_cache_file mid \<mapsto> File (jpeg_bytes w img))\<rparr>)"
  unfolding load_image_cached_miss [OF absent] using assms(2-) by simp

lemma load_image_cached_cut:
  assumes absent: "nodes w (image_cache_file mid) = None"
    and "url = PStr u" and "remote w u = Reply status (Image_Bytes fmt k img)"
    and "\<not> img_intact img"
  shows "load_image_cached url mid wd ht w = (Inr None, w\<lparr>net_log := net_log w @ [u]\<rparr>)"
  unfolding load_image_cached_miss [OF absent] using assms(2-) by simp

text \<open>
  Claim C8, as the code has it. On a miss, a file appears at the picture's path exactly when
  the URL is a string, the remote answers with bytes that open as an image whose pixel data
  can be loaded and whose mode has a JPEG encoding, and the write works. The file then holds
  what the JPEG encoder makes of the decoded image, at the size the image was fetched with,
  whatever size was asked for, and one request has been sent. What is written is the
  encoder's output, not the fetched bytes: the two are the same only when the fetched bytes
  are a JPEG that the encoder reproduces, settings and pixel data alike. When the pixel data
  of the fetched image cannot be loaded, nothing is written and nothing is returned.
\<close>

theorem image_stored_as_jpeg:
  assumes absent: "nodes w (image_cache_file mid) = None"
  shows "(nodes (snd (load_image_cached url mid wd ht w)) (image_cache_file mid) \<noteq> None
     \<longleftrightarrow> (\<exists>u status fmt k img. url = PStr u \<and> remote w u = Reply status (Image_Bytes fmt k img)
            \<and> img_intact img \<and> jpeg_mode (img_mode img)
            \<and> on_write w (image_cache_file mid) = Write_Ok))
   \<and> (\<forall>u status fmt k img.
         url = PStr u \<and> remote w u = Reply status (Image_Bytes fmt k img)
         \<and> img_intact img \<and> jpeg_mode (img_mode img)
         \<and> on_write w (image_cache_file mid) = Write_Ok
         \<longrightarrow> nodes (snd (load_image_cached url mid wd ht w)) (image_cache_file mid)
               = Some (File (Image_Bytes JPEG (fst (jpeg_encode w img))
                               (img\<lparr>img_pixels := snd (jpeg_encode w img)\<rparr>)))
             \<and> net_log (snd (load_image_cached url mid wd ht w)) = net_log w @ [u]
             \<and> ((nodes (snd (load_image_cached url mid wd ht w)) (image_cache_file mid)
                   = Some (File (Image_Bytes fmt k img)))
                 = (fmt = JPEG \<and> k = fst (jpeg_encode w img)
                    \<and> img_pixels img = snd (jpeg_encode w img))))
   \<and> (\<forall>u status fmt k img.
         url = PStr u \<and> remote w u = Reply status (Image_Bytes fmt k img) \<and> \<not> img_intact img
         \<longrightarrow> load_image_cached url mid wd ht w = (Inr None, w\<lparr>net_log := net_log w @ [u]\<rparr>))"
proof (intro conjI allI impI)
  show "nodes (snd (load_image_cached url mid wd ht w)) (image_cache_file mid) \<noteq> None
     \<longleftrightarrow> (\<exists>u status fmt k img. url = PStr u \<and> remote w u = Reply status (Image_Bytes fmt k img)
            \<and> img_intact img \<and> jpeg_mode (img_mode img)
            \<and> on_write w (image_cache_file mid) = Write_Ok)"
    using absent by (rule load_image_cached_stored)
next
  fix u status fmt k img
  assume h: "url = PStr u \<and> remote w u = Reply status (Image_Bytes fmt k img)
         \<and> img_intact img \<and> jpeg_mode (img_mode img)
         \<and> on_write w (image_cache_file mid) = Write_Ok"
  then have e: "load_image_cached url mid wd ht w =
     ((case image_resize w img (wd, ht) of Inl e \<Rightarrow> Inr None | Inr i \<Rightarrow> Inr (Some i)),
      w\<lparr>net_log := net_log w @ [u],
        nodes := (nodes w)(image_cache_file mid \<mapsto> File (jpeg_bytes w img))\<rparr>)"
    using absent by (intro load_image_cached_stored_value) simp_all
  have n: "nodes (snd (load_image_cached url mid wd ht w)) (image_cache_file mid)
               = Some (File (jpeg_bytes w img))"
    unfolding e by simp
  show "nodes (snd (load_image_cached url mid wd ht w)) (image_cache_file mid)
               = Some (File (Image_Bytes JPEG (fst (jpeg_encode w img))
                               (img\<lparr>img_pixels := snd (jpeg_encode w img)\<rparr>)))"
    using n by (simp add: jpeg_bytes_def)
  show "net_log (snd (load_image_cached url mid wd ht w)) = net_log w @ [u]"
    unfolding e by simp
  show "(nodes (snd (load_image_cached url mid wd ht w)) (image_cache_file mid)
                   = Some (File (Image_Bytes fmt k img)))
                 = (fmt = JPEG \<and> k = fst (jpeg_encode w img)
                    \<and> img_pixels img = snd (jpeg_encode w img))"
    using jpeg_bytes_eq_fetched [of w img fmt k] by (simp add: n)
next
  fix u status fmt k img
  assume "url = PStr u \<and> remote w u = Reply status (Image_Bytes fmt k img) \<and> \<not> img_intact img"
  then have c: "url = PStr u" "remote w u = Reply status (Image_Bytes fmt k img)"
      "\<not> img_intact img" by simp_all
  show "load_image_cached url mid wd ht w = (Inr None, w\<lparr>net_log := net_log w @ [u]\<rparr>)"
    using absent c by (rule load_image_cached_cut)
qed

theorem image_stored_as_jpeg_witness:
  "nodes fresh_world (image_cache_file (PStr ''52772'')) = None
   \<and> remote fresh_world ''http://img/52772.jpg'' = Reply 200 (Image_Bytes PNG 7 example_picture)
   \<and> img_intact example_picture \<and> jpeg_mode (img_mode example_picture)
   \<and> on_write fresh_world (image_cache_file (PStr ''52772'')) = Write_Ok
   \<and> nodes (snd (load_image_cached (PStr ''http://img/52772.jpg'') (PStr ''52772'') 120 90 fresh_world))
        (image_cache_file (PStr ''52772''))
       = Some (File (Image_Bytes JPEG 0
           \<lparr> img_mode = Mode_RGB, img_size = (700, 700), img_pixels = 11, img_intact = True \<rparr>))
   \<and> net_log (snd (load_image_cached (PStr ''http://img/52772.jpg'') (PStr ''52772'') 120 90 fresh_world))
       = [''http://img/52772.jpg'']
   \<and> nodes (snd (load_image_cached (PStr ''http://img/52772.jpg'') (PStr ''52772'') 120 90 fresh_world))
        (image_cache_file (PStr ''52772''))
       \<noteq> Some (File (Image_Bytes PNG 7 example_picture))
   \<and> remote fresh_world ''http://img/cut.jpg''
       = Reply 200 (Image_Bytes JPEG 7 (example_picture\<lparr> img_intact := False \<rparr>))
   \<and> \<not> img_intact (example_picture\<lparr> img_intact := False \<rparr>)
   \<and> load_image_cached (PStr ''http://img/cut.jpg'') (PStr ''52772'') 120 90 fresh_world
       = (Inr None, fresh_world\<lparr>net_log := [''http://img/cut.jpg'']\<rparr>)"
proof -
  have a: "nodes fresh_world (image_cache_file (PStr ''52772'')) = None" by code_simp
  have b: "remote fresh_world ''http://img/52772.jpg'' = Reply 200 (Image_Bytes PNG 7 example_picture)"
    by code_simp
  have c1: "img_intact example_picture" and c2: "jpeg_mode (img_mode example_picture)"
    by code_simp+
  have d: "on_write fresh_world (image_cache_file (PStr ''52772'')) = Write_Ok" by code_simp
  have e: "net_log fresh_world = []" by code_simp
  have f: "remote fresh_world ''http://img/cut.jpg''
       = Reply 200 (Image_Bytes JPEG 7 (example_picture\<lparr> img_intact := False \<rparr>))"
    by code_simp
  have g: "\<not> img_intact (example_picture\<lparr> img_intact := False \<rparr>)" by simp
  have enc: "Image_Bytes JPEG (fst (jpeg_encode fresh_world example_picture))
               (example_picture\<lparr>img_pixels := snd (jpeg_encode fresh_world example_picture)\<rparr>)
       = Image_Bytes JPEG 0
           \<lparr> img_mode = Mode_RGB, img_size = (700, 700), img_pixels = 11, img_intact = True \<rparr>"
    by code_simp
  have ne: "\<not> (PNG = JPEG \<and> 7 = fst (jpeg_encode fresh_world example_picture)
                 \<and> img_pixels example_picture = snd (jpeg_encode fresh_world example_picture))"
    by simp
  note t = image_stored_as_jpeg [OF a, where url = "PStr ''http://img/52772.jpg''"
             and wd = 120 and ht = 90]
  have h: "PStr ''http://img/52772.jpg'' = PStr ''http://img/52772.jpg''
         \<and> remote fresh_world ''http://img/52772.jpg'' = Reply 200 (Image_Bytes PNG 7 example_picture)
         \<and> img_intact example_picture \<and> jpeg_mode (img_mode example_picture)
         \<and> on_write fresh_world (image_cache_file (PStr ''52772'')) = Write_Ok"
    using b c1 c2 d by simp
  note r = t [THEN conjunct2, THEN conjunct1, rule_format, OF h]
  have 1: "nodes (snd (load_image_cached (PStr ''http://img/52772.jpg'') (PStr ''52772'') 120 90 fresh_world))
        (image_cache_file (PStr ''52772''))
       = Some (File (Image_Bytes JPEG 0
           \<lparr> img_mode = Mode_RGB, img_size = (700, 700), img_pixels = 11, img_intact = True \<rparr>))"
    using r [THEN conjunct1] by (simp only: enc)
  have 2: "net_log (snd (load_image_cached (PStr ''http://img/52772.jpg'') (PStr ''52772'') 120 90 fresh_world))
       = [''http://img/52772.jpg'']"
    using r [THEN conjunct2, THEN conjunct1] e by simp
  have 3: "nodes (snd (load_image_cached (PStr ''http://img/52772.jpg'') (PStr ''52772'') 120 90 fresh_world))
        (image_cache_file (PStr ''52772''))
       \<noteq> Some (File (Image_Bytes PNG 7 example_picture))"
    using r [THEN conjunct2, THEN conjunct2] ne by (simp only:) simp
  note t' = image_stored_as_jpeg [OF a, where url = "PStr ''http://img/cut.jpg''"
             and wd = 120 and ht = 90]
  have h': "PStr ''http://img/cut.jpg'' = PStr ''http://img/cut.jpg''
         \<and> remote fresh_world ''http://img/cut.jpg''
             = Reply 200 (Image_Bytes JPEG 7 (example_picture\<lparr> img_intact := False \<rparr>))
         \<and> \<not> img_intact (example_picture\<lparr> img_intact := False \<rparr>)"
    using f g by simp
  have "load_image_cached (PStr ''http://img/cut.jpg'') (PStr ''52772'') 120 90 fresh_world
       = (Inr None, fresh_world\<lparr>net_log := net_log fresh_world @ [''http://img/cut.jpg'']\<rparr>)"
    by (rule t' [THEN conjunct2, THEN conjunct2, rule_format, OF h'])
  then have 4: "load_image_cached (PStr ''http://img/cut.jpg'') (PStr ''52772'') 120 90 fresh_world
       = (Inr None, fresh_world\<lparr>net_log := [''http://img/cut.jpg'']\<rparr>)"
    using e by simp
  show ?thesis
    by (intro conjI) (rule a b c1 c2 d 1 2 3 f g 4)+
qed

text \<open>
  The claim as the specification states it fails: the picture is decoded and encoded again
  as JPEG. When the remote sends a PNG, the file written holds a JPEG; when it sends a JPEG,
  the file holds what the encoder makes of the decoded picture, which is not the bytes that
  were fetched.
\<close>

theorem image_bytes_verbatim_counterexample:
  "nodes fresh_world ''images/52772.jpg'' = None
   \<and> remote fresh_world ''http://img/52772.jpg'' = Reply 200 (Image_Bytes PNG 7 example_picture)
   \<and> nodes (snd (load_image_cached (PStr ''http://img/52772.jpg'') (PStr ''52772'') 120 90 fresh_world))
        ''images/52772.jpg''
       = Some (File (Image_Bytes JPEG 0
           \<lparr> img_mode = Mode_RGB, img_size = (700, 700), img_pixels = 11, img_intact = True \<rparr>))
   \<and> nodes (snd (load_image_cached (PStr ''http://img/52772.jpg'') (PStr ''52772'') 120 90 fresh_world))
        ''images/52772.jpg''
       \<noteq> Some (File (Image_Bytes PNG 7 example_picture))
   \<and> remote fresh_world ''http://img/52772b.jpg'' = Reply 200 (Image_Bytes JPEG 7 example_picture)
   \<and> nodes (snd (load_image_cached (PStr ''http://img/52772b.jpg'') (PStr ''52772'') 120 90 fresh_world))
        ''images/52772.jpg''
       \<noteq> Some (File (Image_Bytes JPEG 7 example_picture))"
  by code_simp

section \<open>Resizing from the cached original\<close>


lemma resizable_world:
  "resizable (w\<lparr>net_log := l, nodes := n\<rparr>) sz = resizable w sz"
  by (simp add: resizable_def)





end
